theory Spec2Isabelle
  imports Main "HOL-Library.Sublist"
begin

section \<open>Expression tree (src/core/ast.ts)\<close>

text \<open>
  The tagged union \<open>MathNode\<close>. Optional fields are options; the \<open>limits\<close> object of a
  function node is an optional pair of optional nodes (lower, upper). Source strings are
  lists of characters; a character stands for one UTF-16 code unit below 256.
\<close>

datatype SpaceSize = thin | medium | thick | quad | qquad

datatype MathNode =
    Number string
  | Symbol string
  | Operator string
  | Text string
  | Space SpaceSize
  | Placeholder
  | Row "MathNode list"
  | Fraction MathNode MathNode
  | Power MathNode MathNode
  | Subscript MathNode MathNode
  | SubSup MathNode MathNode MathNode
  | Sqrt MathNode "MathNode option"
  | Parens string string MathNode "string option"
  | Function string "MathNode option" "(MathNode option \<times> MathNode option) option"
  | Matrix "MathNode list list" string "string option"

text \<open>
  Argument order of the constructors: \<open>Fraction numerator denominator\<close>,
  \<open>Power base exponent\<close>, \<open>Subscript base subscript\<close>,
  \<open>SubSup base subscript superscript\<close>, \<open>Sqrt radicand index\<close>,
  \<open>Parens open close content size\<close>, \<open>Function name argument limits\<close>,
  \<open>Matrix rows style colSpec\<close>.
\<close>

section \<open>Cursor positions (src/core/cursor.ts)\<close>

record CursorPosition =
  path :: "nat list"
  offset :: nat

definition cursor :: "nat list \<Rightarrow> nat \<Rightarrow> CursorPosition" where
  "cursor p off = \<lparr>path = p, offset = off\<rparr>"

text \<open>
  \<open>compareCursors\<close> returns -1, 0 or 1. The loop over the common path elements is
  \<open>comparePrefix\<close>: it returns the first decisive comparison, or \<open>None\<close> when the
  paths agree on the first \<open>min (length a) (length b)\<close> indices.
\<close>

fun comparePrefix :: "nat list \<Rightarrow> nat list \<Rightarrow> int option" where
  "comparePrefix (x # xs) (y # ys) =
     (if x < y then Some (-1) else if x > y then Some 1 else comparePrefix xs ys)"
| "comparePrefix _ _ = None"

definition compareCursors :: "CursorPosition \<Rightarrow> CursorPosition \<Rightarrow> int" where
  "compareCursors a b =
     (case comparePrefix (path a) (path b) of
        Some r \<Rightarrow> r
      | None \<Rightarrow>
          if length (path a) = length (path b) then
            (if offset a < offset b then -1 else if offset a > offset b then 1 else 0)
          else if length (path a) < length (path b) then
            (let nextIdx = path b ! length (path a) in
             if offset a \<le> nextIdx then -1 else 1)
          else
            (let nextIdx = path a ! length (path b) in
             if offset b \<le> nextIdx then 1 else -1))"

definition cursorsEqual :: "CursorPosition \<Rightarrow> CursorPosition \<Rightarrow> bool" where
  "cursorsEqual a b = (compareCursors a b = 0)"

section \<open>Selection (src/core/selection.ts)\<close>

record Selection =
  anchor :: CursorPosition
  focus :: CursorPosition

definition collapsedSelection :: "CursorPosition \<Rightarrow> Selection" where
  "collapsedSelection pos = \<lparr>anchor = pos, focus = pos\<rparr>"

definition isCollapsed :: "Selection \<Rightarrow> bool" where
  "isCollapsed sel = cursorsEqual (anchor sel) (focus sel)"

definition getStart :: "Selection \<Rightarrow> CursorPosition" where
  "getStart sel = (if compareCursors (anchor sel) (focus sel) \<le> 0 then anchor sel else focus sel)"

definition getEnd :: "Selection \<Rightarrow> CursorPosition" where
  "getEnd sel = (if compareCursors (anchor sel) (focus sel) \<ge> 0 then anchor sel else focus sel)"

definition extendTo :: "Selection \<Rightarrow> CursorPosition \<Rightarrow> Selection" where
  "extendTo sel newFocus = \<lparr>anchor = anchor sel, focus = newFocus\<rparr>"

section \<open>Editor state and history (src/core/model.ts)\<close>

record EditorState =
  root :: MathNode
  selection :: Selection

record History =
  past :: "EditorState list"
  present :: EditorState
  future :: "EditorState list"

record HistoryOptions =
  maxHistory :: "nat option"
  merge :: "bool option"

definition DEFAULT_MAX_HISTORY :: nat where
  "DEFAULT_MAX_HISTORY = 100"

definition noOptions :: HistoryOptions where
  "noOptions = \<lparr>maxHistory = None, merge = None\<rparr>"

definition createEmptyState :: EditorState where
  "createEmptyState =
     \<lparr>root = Row [Placeholder], selection = collapsedSelection \<lparr>path = [], offset = 0\<rparr>\<rparr>"

definition createHistory :: "EditorState \<Rightarrow> History" where
  "createHistory initial = \<lparr>past = [], present = initial, future = []\<rparr>"

definition updateSelection :: "EditorState \<Rightarrow> Selection \<Rightarrow> EditorState" where
  "updateSelection state newSelection = state\<lparr>selection := newSelection\<rparr>"

definition updateState :: "EditorState \<Rightarrow> MathNode \<Rightarrow> Selection \<Rightarrow> EditorState" where
  "updateState state newRoot newSelection = \<lparr>root = newRoot, selection = newSelection\<rparr>"

definition pushHistory :: "History \<Rightarrow> EditorState \<Rightarrow> HistoryOptions \<Rightarrow> History" where
  "pushHistory history newState options =
     (let maxH = (case maxHistory options of None \<Rightarrow> DEFAULT_MAX_HISTORY | Some m \<Rightarrow> m);
          mergeFlag = (case merge options of None \<Rightarrow> False | Some b \<Rightarrow> b)
      in if mergeFlag \<and> length (past history) > 0 then
           \<lparr>past = past history, present = newState, future = []\<rparr>
         else
           (let newPast = past history @ [present history];
                newPast' = (if length newPast > maxH
                            then drop (length newPast - maxH) newPast else newPast)
            in \<lparr>past = newPast', present = newState, future = []\<rparr>))"

definition undo :: "History \<Rightarrow> History" where
  "undo history =
     (if length (past history) = 0 then history
      else
        (let previous = last (past history);
             newPast = butlast (past history)
         in \<lparr>past = newPast, present = previous,
             future = present history # future history\<rparr>))"

definition redo :: "History \<Rightarrow> History" where
  "redo history =
     (if length (future history) = 0 then history
      else
        (let next = hd (future history);
             newFuture = tl (future history)
         in \<lparr>past = past history @ [present history], present = next,
             future = newFuture\<rparr>))"

definition canUndo :: "History \<Rightarrow> bool" where
  "canUndo history = (length (past history) > 0)"

definition canRedo :: "History \<Rightarrow> bool" where
  "canRedo history = (length (future history) > 0)"

section \<open>Tokenizer (src/parser/tokens.ts)\<close>

datatype TokenType =
    TCommand | TText | TNumber | TOperator | TSuperscript | TSubscript
  | TOpenBrace | TCloseBrace | TOpenBracket | TCloseBracket | TOpenParen | TCloseParen
  | TPipe | TAmpersand | TNewline | TWhitespace | TEof

record Token =
  tok_type :: TokenType
  tok_value :: string
  tok_position :: int

definition mkToken :: "TokenType \<Rightarrow> string \<Rightarrow> nat \<Rightarrow> Token" where
  "mkToken ty v start = \<lparr>tok_type = ty, tok_value = v, tok_position = int start\<rparr>"

definition BS :: char where
  "BS = CHR 0x5C"

text \<open>The character classes of the regular expressions \<open>\s\<close>, \<open>[0-9]\<close>, \<open>[a-zA-Z]\<close>, \<open>[0-9.]\<close>.\<close>

definition isWhitespace :: "char \<Rightarrow> bool" where
  "isWhitespace c =
     (c = CHR 0x09 \<or> c = CHR 0x0A \<or> c = CHR 0x0B \<or> c = CHR 0x0C \<or> c = CHR 0x0D
      \<or> c = CHR 0x20 \<or> c = CHR 0xA0)"

definition isDigit :: "char \<Rightarrow> bool" where
  "isDigit c = (c \<in> set ''0123456789'')"

definition isLetter :: "char \<Rightarrow> bool" where
  "isLetter c = (c \<in> set ''abcdefghijklmnopqrstuvwxyzABCDEFGHIJKLMNOPQRSTUVWXYZ'')"

definition isNumberChar :: "char \<Rightarrow> bool" where
  "isNumberChar c = (isDigit c \<or> c = CHR ''.'')"

text \<open>
  The tokenizer state is the field \<open>position\<close> together with the unread suffix
  \<open>source.slice(position)\<close>. Each reader returns the token, the new position and the new
  suffix.
\<close>

definition readWhitespace :: "nat \<Rightarrow> string \<Rightarrow> Token \<times> nat \<times> string" where
  "readWhitespace start rest =
     (let run = takeWhile isWhitespace rest
      in (mkToken TWhitespace run start, start + length run, dropWhile isWhitespace rest))"

definition readNumber :: "nat \<Rightarrow> string \<Rightarrow> Token \<times> nat \<times> string" where
  "readNumber start rest =
     (let run = takeWhile isNumberChar rest
      in (mkToken TNumber run start, start + length run, dropWhile isNumberChar rest))"

text \<open>\<open>readCommand\<close> is entered with the suffix after the backslash.\<close>

definition readCommand :: "nat \<Rightarrow> string \<Rightarrow> Token \<times> nat \<times> string" where
  "readCommand start afterBackslash =
     (case afterBackslash of
        nextChar # afterNext \<Rightarrow>
          if nextChar = BS then (mkToken TNewline [BS, BS] start, start + 2, afterNext)
          else if \<not> isLetter nextChar then
            (mkToken TCommand [BS, nextChar] start, start + 2, afterNext)
          else
            (let cmdName = takeWhile isLetter afterBackslash
             in (mkToken TCommand (BS # cmdName) start, start + 1 + length cmdName,
                 dropWhile isLetter afterBackslash))
      | [] \<Rightarrow> (mkToken TCommand [BS] start, start + 1, []))"

text \<open>The \<open>switch\<close> over the special characters.\<close>

definition specialToken :: "char \<Rightarrow> TokenType option" where
  "specialToken c =
     (if c = CHR ''{'' then Some TOpenBrace
      else if c = CHR ''}'' then Some TCloseBrace
      else if c = CHR ''['' then Some TOpenBracket
      else if c = CHR '']'' then Some TCloseBracket
      else if c = CHR ''('' then Some TOpenParen
      else if c = CHR '')'' then Some TCloseParen
      else if c = CHR ''^'' then Some TSuperscript
      else if c = CHR ''_'' then Some TSubscript
      else if c = CHR ''&'' then Some TAmpersand
      else if c = CHR ''|'' then Some TPipe
      else if c \<in> set [CHR ''+'', CHR ''-'', CHR ''='', CHR ''<'', CHR ''>'', CHR ''*'',
                          CHR ''/'', CHR ''!'', CHR 0x27, CHR '','', CHR ''.'', CHR '':'',
                          CHR '';'']
      then Some TOperator
      else None)"

fun nextToken :: "nat \<Rightarrow> string \<Rightarrow> Token \<times> nat \<times> string" where
  "nextToken start (c # cs) =
     (if isWhitespace c then readWhitespace start (c # cs)
      else if c = BS then readCommand start cs
      else if isDigit c then readNumber start (c # cs)
      else (case specialToken c of
              Some ty \<Rightarrow> (mkToken ty [c] start, start + 1, cs)
            | None \<Rightarrow>
                if isLetter c then (mkToken TText [c] start, start + 1, cs)
                else (mkToken TText [c] start, start + 1, cs)))"
| "nextToken start [] = (mkToken TText [] start, start + 1, [])"

text \<open>
  The loop of \<open>tokenize\<close> calls \<open>nextToken\<close> only while characters remain; the second
  equation, where \<open>source[position]\<close> is undefined, is never reached. Every branch of
  \<open>nextToken\<close> returns a token, never null.
\<close>

declare nextToken.simps [simp del]

lemma readWhitespace_shorter:
  "isWhitespace c \<Longrightarrow> readWhitespace start (c # cs) = (t, p, rest) \<Longrightarrow> length rest \<le> length cs"
  by (auto simp: readWhitespace_def Let_def length_dropWhile_le)

lemma readNumber_shorter:
  "isDigit c \<Longrightarrow> readNumber start (c # cs) = (t, p, rest) \<Longrightarrow> length rest \<le> length cs"
  by (auto simp: readNumber_def isNumberChar_def Let_def length_dropWhile_le)

lemma readCommand_shorter:
  "readCommand start cs = (t, p, rest) \<Longrightarrow> length rest \<le> length cs"
  by (cases cs)
     (auto simp: readCommand_def Let_def split: if_splits
           intro: le_trans [OF length_dropWhile_le])

lemma nextToken_shorter:
  "nextToken start (c # cs) = (t, p, rest) \<Longrightarrow> length rest < Suc (length cs)"
  by (auto simp: nextToken.simps less_Suc_eq_le
           dest: readWhitespace_shorter readNumber_shorter readCommand_shorter
           split: if_splits option.splits)

text \<open>The \<open>while\<close> loop of \<open>tokenize\<close>, and the final end-of-input token.\<close>

function tokenizeLoop :: "nat \<Rightarrow> string \<Rightarrow> Token list" where
  "tokenizeLoop position [] = [mkToken TEof [] position]"
| "tokenizeLoop position (c # cs) =
     (case nextToken position (c # cs) of
        (token, position', rest) \<Rightarrow> token # tokenizeLoop position' rest)"
  by pat_completeness auto
termination
  by (relation "measure (\<lambda>(p, s). length s)") (auto dest: nextToken_shorter [OF sym])

definition tokenize :: "string \<Rightarrow> Token list" where
  "tokenize source = tokenizeLoop 0 source"

section \<open>Path addressing (src/core/cursor.ts)\<close>

datatype MathNodeKind =
    KRow | KNumber | KSymbol | KOperator | KFraction | KPower | KSubscript | KSubSup
  | KSqrt | KParens | KMatrix | KText | KFunction | KSpace | KPlaceholder

fun kind :: "MathNode \<Rightarrow> MathNodeKind" where
  "kind (Number v) = KNumber"
| "kind (Symbol v) = KSymbol"
| "kind (Operator v) = KOperator"
| "kind (Text v) = KText"
| "kind (Space s) = KSpace"
| "kind Placeholder = KPlaceholder"
| "kind (Row cs) = KRow"
| "kind (Fraction n d) = KFraction"
| "kind (Power b e) = KPower"
| "kind (Subscript b s) = KSubscript"
| "kind (SubSup b s e) = KSubSup"
| "kind (Sqrt r i) = KSqrt"
| "kind (Parens opn cls c sz) = KParens"
| "kind (Function nm a l) = KFunction"
| "kind (Matrix rs st cspec) = KMatrix"

text \<open>The field \<open>children\<close> of a row node (read only where the kind is known to be row).\<close>

fun children :: "MathNode \<Rightarrow> MathNode list" where
  "children (Row cs) = cs"
| "children _ = []"

fun getChildNodes :: "MathNode \<Rightarrow> MathNode list" where
  "getChildNodes (Row cs) = cs"
| "getChildNodes (Fraction numerator denominator) = [numerator, denominator]"
| "getChildNodes (Power base exponent) = [base, exponent]"
| "getChildNodes (Subscript base subscr) = [base, subscr]"
| "getChildNodes (SubSup base subscr superscr) = [base, subscr, superscr]"
| "getChildNodes (Sqrt radicand index) =
     (case index of Some i \<Rightarrow> [radicand, i] | None \<Rightarrow> [radicand])"
| "getChildNodes (Parens opn cls content sz) = [content]"
| "getChildNodes (Function nm argument limits) =
     (case argument of Some a \<Rightarrow> [a] | None \<Rightarrow> [])
     @ (case limits of Some (Some lower, upper) \<Rightarrow> [lower] | _ \<Rightarrow> [])
     @ (case limits of Some (lower, Some upper) \<Rightarrow> [upper] | _ \<Rightarrow> [])"
| "getChildNodes (Matrix rs st cspec) = concat rs"
| "getChildNodes _ = []"

fun getNodeAtPath :: "MathNode \<Rightarrow> nat list \<Rightarrow> MathNode option" where
  "getNodeAtPath current [] = Some current"
| "getNodeAtPath current (index # rest) =
     (let cs = getChildNodes current
      in if index \<ge> length cs then None else getNodeAtPath (cs ! index) rest)"

definition parentPath :: "nat list \<Rightarrow> nat list" where
  "parentPath p = (if length p = 0 then [] else butlast p)"

definition indexInParent :: "nat list \<Rightarrow> int" where
  "indexInParent p = (if length p = 0 then -1 else int (last p))"

lemma size_list_member: "x \<in> set xs \<Longrightarrow> f x < Suc (size_list f xs)"
  using size_list_estimation' [of x xs "f x" f] by simp

lemma size_list_member2:
  "x \<in> set xs \<Longrightarrow> xs \<in> set xss \<Longrightarrow> f x < Suc (size_list (size_list f) xss)"
  using size_list_estimation' [of x xs "f x" f]
        size_list_estimation' [of xs xss "f x" "size_list f"] by simp

lemma size_child_less: "c \<in> set (getChildNodes n) \<Longrightarrow> size c < size n"
  by (cases n) (auto split: option.splits prod.splits simp: size_list_member size_list_member2)

function hasDescendantRow :: "MathNode \<Rightarrow> bool" where
  "hasDescendantRow n = (if kind n = KRow then True else list_ex hasDescendantRow (getChildNodes n))"
  by pat_completeness auto
termination
  by (relation "measure size") (auto dest: size_child_less)


declare hasDescendantRow.simps [simp del]

text \<open>
  Outcomes that are not values of the source's types: reading \<open>.kind\<close> of
  \<open>undefined\<close> throws a TypeError; writing an array element past its end leaves holes,
  which no list of nodes represents; and the recursion between \<open>findFirstFocusable\<close>,
  \<open>findLastFocusable\<close> and \<open>coerceToRowCursor\<close> is bounded by fuel.
\<close>

datatype failure = TypeError | SparseArray | FuelExhausted

text \<open>
  The \<open>while\<close> loop of \<open>coerceToRowCursor\<close>: walk up to the nearest ancestor that is a
  row and stand after the child the walk came from.
\<close>

function coerceWalkUp :: "MathNode \<Rightarrow> nat list \<Rightarrow> CursorPosition option" where
  "coerceWalkUp rt currentPath =
     (if length currentPath > 0 then
        (let parentP = parentPath currentPath in
         case getNodeAtPath rt parentP of
           Some parent \<Rightarrow>
             if kind parent = KRow
             then Some \<lparr>path = parentP, offset = nat (indexInParent currentPath + 1)\<rparr>
             else coerceWalkUp rt parentP
         | None \<Rightarrow> coerceWalkUp rt parentP)
      else None)"
  by pat_completeness auto
termination
  by (relation "measure (\<lambda>(rt, p). length p)") (auto simp: parentPath_def)

declare coerceWalkUp.simps [simp del]

text \<open>
  The \<open>for\<close> loops of the focusable search stop at the first (last) child that is a row
  or has a descendant row.
\<close>

definition firstFocusableChild :: "MathNode list \<Rightarrow> (nat \<times> MathNode) option" where
  "firstFocusableChild cs =
     List.find (\<lambda>(i, child). kind child = KRow \<or> hasDescendantRow child) (enumerate 0 cs)"

definition lastFocusableChild :: "MathNode list \<Rightarrow> (nat \<times> MathNode) option" where
  "lastFocusableChild cs =
     List.find (\<lambda>(i, child). kind child = KRow \<or> hasDescendantRow child) (rev (enumerate 0 cs))"

fun findFirstFocusable :: "nat \<Rightarrow> MathNode \<Rightarrow> nat list \<Rightarrow> failure + CursorPosition"
and findLastFocusable :: "nat \<Rightarrow> MathNode \<Rightarrow> nat list \<Rightarrow> failure + CursorPosition"
and coerceToRowCursor :: "nat \<Rightarrow> MathNode \<Rightarrow> CursorPosition \<Rightarrow> failure + CursorPosition"
where
  "findFirstFocusable 0 rt basePath = Inl FuelExhausted"
| "findFirstFocusable (Suc fuel) rt basePath =
     (let node = (case getNodeAtPath rt basePath of Some n \<Rightarrow> n | None \<Rightarrow> rt) in
      if kind node = KRow then Inr \<lparr>path = basePath, offset = 0\<rparr>
      else
        (case firstFocusableChild (getChildNodes node) of
           Some (i, child) \<Rightarrow>
             if kind child = KRow then Inr \<lparr>path = basePath @ [i], offset = 0\<rparr>
             else findFirstFocusable fuel rt (basePath @ [i])
         | None \<Rightarrow> coerceToRowCursor fuel rt \<lparr>path = basePath, offset = 0\<rparr>))"
| "findLastFocusable 0 rt basePath = Inl FuelExhausted"
| "findLastFocusable (Suc fuel) rt basePath =
     (let node = (case getNodeAtPath rt basePath of Some n \<Rightarrow> n | None \<Rightarrow> rt) in
      if kind node = KRow then Inr \<lparr>path = basePath, offset = length (children node)\<rparr>
      else
        (case lastFocusableChild (getChildNodes node) of
           Some (i, child) \<Rightarrow>
             if kind child = KRow
             then Inr \<lparr>path = basePath @ [i], offset = length (children child)\<rparr>
             else findLastFocusable fuel rt (basePath @ [i])
         | None \<Rightarrow> coerceToRowCursor fuel rt \<lparr>path = basePath, offset = 0\<rparr>))"
| "coerceToRowCursor 0 rt pos = Inl FuelExhausted"
| "coerceToRowCursor (Suc fuel) rt pos =
     (case getNodeAtPath rt (path pos) of
        Some node \<Rightarrow>
          if kind node = KRow
          then Inr \<lparr>path = path pos, offset = max 0 (min (offset pos) (length (children node)))\<rparr>
          else (case coerceWalkUp rt (path pos) of
                  Some c \<Rightarrow> Inr c
                | None \<Rightarrow>
                    if kind rt = KRow then Inr \<lparr>path = [], offset = 0\<rparr>
                    else findFirstFocusable fuel rt [])
      | None \<Rightarrow>
          (case coerceWalkUp rt (path pos) of
             Some c \<Rightarrow> Inr c
           | None \<Rightarrow>
               if kind rt = KRow then Inr \<lparr>path = [], offset = 0\<rparr>
               else findFirstFocusable fuel rt []))"

section \<open>Navigation (src/core/commands/navigate.ts)\<close>

definition isStructure :: "MathNode \<Rightarrow> bool" where
  "isStructure node =
     (kind node \<in> set [KFraction, KPower, KSubscript, KSubSup, KSqrt, KParens, KMatrix, KFunction])"

text \<open>The number of cells \<open>parent.rows.length * (parent.rows[0]?.length || 1)\<close> of a matrix.\<close>

fun matrixTotalCells :: "MathNode \<Rightarrow> nat" where
  "matrixTotalCells (Matrix rs st cspec) =
     length rs * (case rs of [] \<Rightarrow> 1 | r # _ \<Rightarrow> if length r = 0 then 1 else length r)"
| "matrixTotalCells _ = 0"

function exitNodeLeft :: "nat \<Rightarrow> MathNode \<Rightarrow> nat list \<Rightarrow> failure + CursorPosition option" where
  "exitNodeLeft fuel rt p =
     (if length p = 0 then Inr None
      else
        (let parentP = parentPath p; childIdx = indexInParent p in
         case getNodeAtPath rt parentP of
           None \<Rightarrow> Inr None
         | Some parent \<Rightarrow>
             if kind parent = KRow then Inr (Some (cursor parentP (nat childIdx)))
             else if kind parent = KMatrix then
               (if childIdx > 0 then
                  (case findLastFocusable fuel rt (parentP @ [nat (childIdx - 1)]) of
                     Inl e \<Rightarrow> Inl e | Inr c \<Rightarrow> Inr (Some c))
                else exitNodeLeft fuel rt parentP)
             else exitNodeLeft fuel rt parentP))"
  by pat_completeness auto
termination
  by (relation "measure (\<lambda>(fuel, rt, p). length p)") (auto simp: parentPath_def)

function exitNodeRight :: "nat \<Rightarrow> MathNode \<Rightarrow> nat list \<Rightarrow> failure + CursorPosition option" where
  "exitNodeRight fuel rt p =
     (if length p = 0 then Inr None
      else
        (let parentP = parentPath p; childIdx = indexInParent p in
         case getNodeAtPath rt parentP of
           None \<Rightarrow> Inr None
         | Some parent \<Rightarrow>
             if kind parent = KRow then Inr (Some (cursor parentP (nat (childIdx + 1))))
             else if kind parent = KMatrix then
               (let totalCells = matrixTotalCells parent in
                if childIdx < int totalCells - 1 then
                  (case findFirstFocusable fuel rt (parentP @ [nat (childIdx + 1)]) of
                     Inl e \<Rightarrow> Inl e | Inr c \<Rightarrow> Inr (Some c))
                else exitNodeRight fuel rt parentP)
             else exitNodeRight fuel rt parentP))"
  by pat_completeness auto
termination
  by (relation "measure (\<lambda>(fuel, rt, p). length p)") (auto simp: parentPath_def)

declare exitNodeLeft.simps [simp del] exitNodeRight.simps [simp del]

definition moveCursorLeft :: "nat \<Rightarrow> MathNode \<Rightarrow> CursorPosition \<Rightarrow> failure + CursorPosition option" where
  "moveCursorLeft fuel rt pos =
     (case getNodeAtPath rt (path pos) of
        None \<Rightarrow> Inr None
      | Some node \<Rightarrow>
          if kind node \<noteq> KRow then Inr None
          else if offset pos > 0 then
            (if offset pos - 1 < length (children node)
                \<and> isStructure (children node ! (offset pos - 1))
                \<and> hasDescendantRow (children node ! (offset pos - 1))
             then (case findLastFocusable fuel rt (path pos @ [offset pos - 1]) of
                     Inl e \<Rightarrow> Inl e | Inr c \<Rightarrow> Inr (Some c))
             else Inr (Some (cursor (path pos) (offset pos - 1))))
          else exitNodeLeft fuel rt (path pos))"

definition moveCursorRight :: "nat \<Rightarrow> MathNode \<Rightarrow> CursorPosition \<Rightarrow> failure + CursorPosition option" where
  "moveCursorRight fuel rt pos =
     (case getNodeAtPath rt (path pos) of
        None \<Rightarrow> Inr None
      | Some node \<Rightarrow>
          if kind node \<noteq> KRow then Inr None
          else if offset pos < length (children node) then
            (if isStructure (children node ! offset pos)
                \<and> hasDescendantRow (children node ! offset pos)
             then (case findFirstFocusable fuel rt (path pos @ [offset pos]) of
                     Inl e \<Rightarrow> Inl e | Inr c \<Rightarrow> Inr (Some c))
             else Inr (Some (cursor (path pos) (offset pos + 1))))
          else exitNodeRight fuel rt (path pos))"

text \<open>
  A command maps a state to a new state, to \<open>null\<close> (\<open>Inr None\<close>) or to a failure.
\<close>

type_synonym Command = "EditorState \<Rightarrow> failure + EditorState option"

definition moveLeft :: "nat \<Rightarrow> bool \<Rightarrow> Command" where
  "moveLeft fuel extending state =
     (if \<not> isCollapsed (selection state) \<and> \<not> extending
      then Inr (Some (updateSelection state (collapsedSelection (getStart (selection state)))))
      else
        (case moveCursorLeft fuel (root state) (focus (selection state)) of
           Inl e \<Rightarrow> Inl e
         | Inr None \<Rightarrow> Inr None
         | Inr (Some newPos) \<Rightarrow>
             Inr (Some (updateSelection state
                          (if extending then extendTo (selection state) newPos
                           else collapsedSelection newPos)))))"

definition moveRight :: "nat \<Rightarrow> bool \<Rightarrow> Command" where
  "moveRight fuel extending state =
     (if \<not> isCollapsed (selection state) \<and> \<not> extending
      then Inr (Some (updateSelection state (collapsedSelection (getEnd (selection state)))))
      else
        (case moveCursorRight fuel (root state) (focus (selection state)) of
           Inl e \<Rightarrow> Inl e
         | Inr None \<Rightarrow> Inr None
         | Inr (Some newPos) \<Rightarrow>
             Inr (Some (updateSelection state
                          (if extending then extendTo (selection state) newPos
                           else collapsedSelection newPos)))))"

section \<open>Deletion (src/core/commands/delete.ts)\<close>

text \<open>
  The array write \<open>xs[index] = v\<close> on a copy of \<open>xs\<close>: inside the array it replaces an
  element, at its end it appends, and past its end it would leave holes.
\<close>

definition arraySet :: "'a list \<Rightarrow> nat \<Rightarrow> 'a \<Rightarrow> failure + 'a list" where
  "arraySet xs index v =
     (if index < length xs then Inr (xs[index := v])
      else if index = length xs then Inr (xs @ [v])
      else Inl SparseArray)"

text \<open>\<open>xs.slice(a, b)\<close> and \<open>xs.slice(a)\<close> for non-negative indices.\<close>

definition slice :: "'a list \<Rightarrow> nat \<Rightarrow> nat \<Rightarrow> 'a list" where
  "slice xs a b = take (b - a) (drop a xs)"

definition sliceFrom :: "'a list \<Rightarrow> nat \<Rightarrow> 'a list" where
  "sliceFrom xs a = drop a xs"

text \<open>
  \<open>replaceChild\<close> of delete.ts has no case for matrix or function parents: they are
  returned unchanged.
\<close>

fun replaceChild_del :: "MathNode \<Rightarrow> nat \<Rightarrow> MathNode \<Rightarrow> failure + MathNode" where
  "replaceChild_del (Row cs) index newChild =
     (case arraySet cs index newChild of Inl e \<Rightarrow> Inl e | Inr newChildren \<Rightarrow> Inr (Row newChildren))"
| "replaceChild_del (Fraction numerator denominator) index newChild =
     Inr (if index = 0 then Fraction newChild denominator else Fraction numerator newChild)"
| "replaceChild_del (Power base exponent) index newChild =
     Inr (if index = 0 then Power newChild exponent else Power base newChild)"
| "replaceChild_del (Subscript base subscr) index newChild =
     Inr (if index = 0 then Subscript newChild subscr else Subscript base newChild)"
| "replaceChild_del (SubSup base subscr superscr) index newChild =
     Inr (if index = 0 then SubSup newChild subscr superscr
          else if index = 1 then SubSup base newChild superscr
          else SubSup base subscr newChild)"
| "replaceChild_del (Sqrt radicand index') index newChild =
     Inr (if index = 0 then Sqrt newChild index' else Sqrt radicand (Some newChild))"
| "replaceChild_del (Parens opn cls content sz) index newChild =
     Inr (Parens opn cls newChild sz)"
| "replaceChild_del parent index newChild = Inr parent"

function replaceNodeAtPath_del :: "MathNode \<Rightarrow> nat list \<Rightarrow> MathNode \<Rightarrow> failure + MathNode" where
  "replaceNodeAtPath_del rt p newNode =
     (if length p = 0 then Inr newNode
      else
        (let parentP = parentPath p; childIdx = indexInParent p in
         case getNodeAtPath rt parentP of
           None \<Rightarrow> Inr rt
         | Some parent \<Rightarrow>
             (case replaceChild_del parent (nat childIdx) newNode of
                Inl e \<Rightarrow> Inl e
              | Inr newParent \<Rightarrow> replaceNodeAtPath_del rt parentP newParent)))"
  by pat_completeness auto
termination
  by (relation "measure (\<lambda>(rt, p, n). length p)") (auto simp: parentPath_def)

declare replaceNodeAtPath_del.simps [simp del]

definition isStructuredNode :: "MathNode \<Rightarrow> bool" where
  "isStructuredNode node =
     (kind node \<in> set [KFraction, KPower, KSubscript, KSubSup, KSqrt, KParens, KMatrix])"

fun getMainContent :: "MathNode \<Rightarrow> MathNode option" where
  "getMainContent (Fraction numerator denominator) = Some numerator"
| "getMainContent (Power base exponent) = Some base"
| "getMainContent (Subscript base subscr) = Some base"
| "getMainContent (SubSup base subscr superscr) = Some base"
| "getMainContent (Sqrt radicand index) = Some radicand"
| "getMainContent (Parens opn cls content sz) = Some content"
| "getMainContent _ = None"

text \<open>The row is never left without a child: \<open>newChildren.length === 0 ? [placeholder()] : newChildren\<close>.\<close>

definition orPlaceholder :: "MathNode list \<Rightarrow> MathNode list" where
  "orPlaceholder newChildren = (if length newChildren = 0 then [Placeholder] else newChildren)"

definition flattenStructureBackward ::
  "MathNode \<Rightarrow> nat list \<Rightarrow> nat \<Rightarrow> MathNode \<Rightarrow> failure + (MathNode \<times> CursorPosition) option" where
  "flattenStructureBackward rt rowPath targetIdx structure =
     (case getNodeAtPath rt rowPath of
        None \<Rightarrow> Inr None
      | Some row \<Rightarrow>
          if kind row \<noteq> KRow then Inr None
          else
            (case getMainContent structure of
               None \<Rightarrow> Inr None
             | Some mainContent \<Rightarrow>
                 (let contentNodes = (if kind mainContent = KRow then children mainContent
                                      else [mainContent]);
                      cs = children row;
                      newChildren = slice cs 0 targetIdx @ contentNodes @ sliceFrom cs (targetIdx + 1);
                      newRow = Row newChildren
                  in case replaceNodeAtPath_del rt rowPath newRow of
                       Inl e \<Rightarrow> Inl e
                     | Inr newRoot \<Rightarrow> Inr (Some (newRoot, cursor rowPath targetIdx)))))"

definition flattenStructureForward ::
  "MathNode \<Rightarrow> nat list \<Rightarrow> nat \<Rightarrow> MathNode \<Rightarrow> failure + (MathNode \<times> CursorPosition) option" where
  "flattenStructureForward rt rowPath targetIdx structure =
     flattenStructureBackward rt rowPath targetIdx structure"

definition deleteContainingStructure ::
  "MathNode \<Rightarrow> nat list \<Rightarrow> failure + (MathNode \<times> CursorPosition) option" where
  "deleteContainingStructure rt placeholderPath =
     (if length placeholderPath < 2 then Inr None
      else
        (let structurePath = parentPath placeholderPath in
         case getNodeAtPath rt structurePath of
           None \<Rightarrow> Inr None
         | Some structure \<Rightarrow>
             if \<not> isStructuredNode structure then Inr None
             else
               (let rowPath = parentPath structurePath in
                case getNodeAtPath rt rowPath of
                  None \<Rightarrow> Inr None
                | Some row \<Rightarrow>
                    if kind row \<noteq> KRow then Inr None
                    else
                      (let structureIdx = nat (indexInParent structurePath) in
                       case arraySet (children row) structureIdx Placeholder of
                         Inl e \<Rightarrow> Inl e
                       | Inr cs \<Rightarrow>
                           (case replaceNodeAtPath_del rt rowPath (Row cs) of
                              Inl e \<Rightarrow> Inl e
                            | Inr newRoot \<Rightarrow>
                                Inr (Some (newRoot, cursor (rowPath @ [structureIdx]) 0)))))))"

datatype Direction = Forward | Backward

text \<open>
  The simple deletion of the child at \<open>targetIdx\<close> of the row at the cursor, shared by
  the branches of \<open>deleteAtPosition\<close>.
\<close>

definition removeChildAt ::
  "MathNode \<Rightarrow> CursorPosition \<Rightarrow> MathNode list \<Rightarrow> nat \<Rightarrow> nat
     \<Rightarrow> failure + (MathNode \<times> CursorPosition) option" where
  "removeChildAt rt pos cs targetIdx newOffset =
     (let newChildren = slice cs 0 targetIdx @ sliceFrom cs (targetIdx + 1);
          finalChildren = orPlaceholder newChildren;
          newRow = Row finalChildren
      in case replaceNodeAtPath_del rt (path pos) newRow of
           Inl e \<Rightarrow> Inl e
         | Inr newRoot \<Rightarrow> Inr (Some (newRoot, cursor (path pos) newOffset)))"

definition deleteAtPosition ::
  "MathNode \<Rightarrow> CursorPosition \<Rightarrow> Direction \<Rightarrow> failure + (MathNode \<times> CursorPosition) option" where
  "deleteAtPosition rt pos direction =
     (case getNodeAtPath rt (path pos) of
        None \<Rightarrow> Inr None
      | Some node \<Rightarrow>
          if kind node = KRow then
            (let cs = children node in
             if direction = Backward then
               (if offset pos = 0 then
                  (if length (path pos) > 0 then Inr None
                   else if length cs > 0 \<and> \<not> (length cs = 1 \<and> kind (cs ! 0) = KPlaceholder) then
                     (let targetChild = cs ! 0 in
                      if isStructuredNode targetChild
                      then flattenStructureForward rt (path pos) 0 targetChild
                      else
                        (let newChildren = sliceFrom cs 1;
                             finalChildren = orPlaceholder newChildren;
                             newRow = Row finalChildren
                         in case replaceNodeAtPath_del rt (path pos) newRow of
                              Inl e \<Rightarrow> Inl e
                            | Inr newRoot \<Rightarrow> Inr (Some (newRoot, cursor (path pos) 0))))
                   else Inr None)
                else
                  (let targetIdx = offset pos - 1 in
                   if targetIdx \<ge> length cs then Inl TypeError
                   else if isStructuredNode (cs ! targetIdx)
                   then flattenStructureBackward rt (path pos) targetIdx (cs ! targetIdx)
                   else removeChildAt rt pos cs targetIdx (max 0 targetIdx)))
             else
               (if offset pos \<ge> length cs then Inr None
                else
                  (let targetIdx = offset pos in
                   if isStructuredNode (cs ! targetIdx)
                   then flattenStructureForward rt (path pos) targetIdx (cs ! targetIdx)
                   else removeChildAt rt pos cs targetIdx targetIdx)))
          else if kind node = KPlaceholder then deleteContainingStructure rt (path pos)
          else Inr None)"

fun findCommonAncestorPath :: "nat list \<Rightarrow> nat list \<Rightarrow> nat list" where
  "findCommonAncestorPath (x # xs) (y # ys) =
     (if x = y then x # findCommonAncestorPath xs ys else [])"
| "findCommonAncestorPath _ _ = []"

text \<open>The \<open>while\<close> loop of \<open>deleteRange\<close> that walks up from the common ancestor to a row.\<close>

function walkUpToRow :: "MathNode \<Rightarrow> nat list \<Rightarrow> nat list \<times> MathNode option" where
  "walkUpToRow rt rowPath =
     (case getNodeAtPath rt rowPath of
        None \<Rightarrow> (rowPath, None)
      | Some rowNode \<Rightarrow>
          if kind rowNode \<noteq> KRow \<and> length rowPath > 0
          then walkUpToRow rt (parentPath rowPath)
          else (rowPath, Some rowNode))"
  by pat_completeness auto
termination
  by (relation "measure (\<lambda>(rt, p). length p)") (auto simp: parentPath_def)

declare walkUpToRow.simps [simp del]

definition deleteRange ::
  "MathNode \<Rightarrow> Selection \<Rightarrow> failure + (MathNode \<times> CursorPosition) option" where
  "deleteRange rt sel =
     (let start = getStart sel; end' = getEnd sel in
      if length (path start) = length (path end') \<and> path start = path end' then
        (case getNodeAtPath rt (path start) of
           None \<Rightarrow> Inr None
         | Some node \<Rightarrow>
             if kind node \<noteq> KRow then Inr None
             else
               (let cs = children node;
                    newChildren = slice cs 0 (offset start) @ sliceFrom cs (offset end');
                    finalChildren = orPlaceholder newChildren;
                    newRow = Row finalChildren
                in case replaceNodeAtPath_del rt (path start) newRow of
                     Inl e \<Rightarrow> Inl e
                   | Inr newRoot \<Rightarrow> Inr (Some (newRoot, start))))
      else
        (let commonPath = findCommonAncestorPath (path start) (path end') in
         case walkUpToRow rt commonPath of
           (rowPath, Some rowNode) \<Rightarrow>
             if kind rowNode = KRow then
               (let cs = children rowNode;
                    startIdx = (if length (path start) > length rowPath
                                then path start ! length rowPath
                                else if length (path start) = length rowPath then offset start
                                else 0);
                    endIdx = (if length (path end') > length rowPath
                              then path end' ! length rowPath + 1
                              else if length (path end') = length rowPath then offset end'
                              else length cs);
                    startIdx' = max 0 (min startIdx (length cs));
                    endIdx' = max startIdx' (min endIdx (length cs));
                    newChildren = slice cs 0 startIdx' @ sliceFrom cs endIdx';
                    finalChildren = orPlaceholder newChildren;
                    newRow = Row finalChildren
                in case replaceNodeAtPath_del rt rowPath newRow of
                     Inl e \<Rightarrow> Inl e
                   | Inr newRoot \<Rightarrow> Inr (Some (newRoot, cursor rowPath startIdx')))
             else Inr (Some (rt, start))
         | (rowPath, None) \<Rightarrow> Inr (Some (rt, start))))"

definition deleteSelection :: Command where
  "deleteSelection state =
     (if isCollapsed (selection state) then Inr None
      else
        (case deleteRange (root state) (selection state) of
           Inl e \<Rightarrow> Inl e
         | Inr None \<Rightarrow> Inr None
         | Inr (Some (newRoot, newPos)) \<Rightarrow>
             Inr (Some (updateState state newRoot (collapsedSelection newPos)))))"

definition deleteBackward :: "nat \<Rightarrow> Command" where
  "deleteBackward fuel state =
     (if \<not> isCollapsed (selection state) then deleteSelection state
      else
        (case deleteAtPosition (root state) (focus (selection state)) Backward of
           Inl e \<Rightarrow> Inl e
         | Inr None \<Rightarrow> moveLeft fuel False state
         | Inr (Some (newRoot, newPos)) \<Rightarrow>
             Inr (Some (updateState state newRoot (collapsedSelection newPos)))))"

definition deleteForward :: Command where
  "deleteForward state =
     (if \<not> isCollapsed (selection state) then deleteSelection state
      else
        (case deleteAtPosition (root state) (focus (selection state)) Forward of
           Inl e \<Rightarrow> Inl e
         | Inr None \<Rightarrow> Inr None
         | Inr (Some (newRoot, newPos)) \<Rightarrow>
             Inr (Some (updateState state newRoot (collapsedSelection newPos)))))"

text \<open>
  \<open>executeCommand\<close> of commands/types.ts: the \<open>state\<close> field of its result is the new
  state, or the old one when the command returned \<open>null\<close>.
\<close>

definition executeCommand :: "EditorState \<Rightarrow> Command \<Rightarrow> failure + EditorState" where
  "executeCommand state command =
     (case command state of
        Inl e \<Rightarrow> Inl e
      | Inr None \<Rightarrow> Inr state
      | Inr (Some newState) \<Rightarrow> Inr newState)"

fun executeCommands :: "EditorState \<Rightarrow> Command list \<Rightarrow> failure + EditorState" where
  "executeCommands state [] = Inr state"
| "executeCommands state (command # rest) =
     (case executeCommand state command of
        Inl e \<Rightarrow> Inl e
      | Inr state' \<Rightarrow> executeCommands state' rest)"

section \<open>Insertion (src/core/commands/insert.ts)\<close>

text \<open>The node builder \<open>node.matrix\<close>: an empty column specification is dropped.\<close>

definition nodeMatrix :: "MathNode list list \<Rightarrow> string \<Rightarrow> string option \<Rightarrow> MathNode" where
  "nodeMatrix rs st cspec =
     Matrix rs st (case cspec of Some c \<Rightarrow> if c = [] then None else Some c | None \<Rightarrow> None)"

text \<open>The matrix case of \<open>replaceChild\<close>, which insert.ts has and delete.ts has not.\<close>

definition replaceMatrixCell :: "MathNode list list \<Rightarrow> nat \<Rightarrow> MathNode \<Rightarrow> MathNode list list" where
  "replaceMatrixCell rs index newChild =
     (let cols = (case rs of [] \<Rightarrow> 1 | r # _ \<Rightarrow> if length r = 0 then 1 else length r);
          rowIdx = index div cols;
          colIdx = index mod cols
      in map (\<lambda>(r, row).
                if r = rowIdx
                then map (\<lambda>(c, cell). if c = colIdx then newChild else cell) (enumerate 0 row)
                else row)
             (enumerate 0 rs))"

fun replaceChild_ins :: "MathNode \<Rightarrow> nat \<Rightarrow> MathNode \<Rightarrow> failure + MathNode" where
  "replaceChild_ins (Row cs) index newChild =
     (case arraySet cs index newChild of Inl e \<Rightarrow> Inl e | Inr newChildren \<Rightarrow> Inr (Row newChildren))"
| "replaceChild_ins (Fraction numerator denominator) index newChild =
     Inr (if index = 0 then Fraction newChild denominator else Fraction numerator newChild)"
| "replaceChild_ins (Power base exponent) index newChild =
     Inr (if index = 0 then Power newChild exponent else Power base newChild)"
| "replaceChild_ins (Subscript base subscr) index newChild =
     Inr (if index = 0 then Subscript newChild subscr else Subscript base newChild)"
| "replaceChild_ins (SubSup base subscr superscr) index newChild =
     Inr (if index = 0 then SubSup newChild subscr superscr
          else if index = 1 then SubSup base newChild superscr
          else SubSup base subscr newChild)"
| "replaceChild_ins (Sqrt radicand index') index newChild =
     Inr (if index = 0 then Sqrt newChild index' else Sqrt radicand (Some newChild))"
| "replaceChild_ins (Parens opn cls content sz) index newChild =
     Inr (Parens opn cls newChild sz)"
| "replaceChild_ins (Matrix rs st cspec) index newChild =
     Inr (nodeMatrix (replaceMatrixCell rs index newChild) st cspec)"
| "replaceChild_ins parent index newChild = Inr parent"

function replaceNodeAtPath_ins :: "MathNode \<Rightarrow> nat list \<Rightarrow> MathNode \<Rightarrow> failure + MathNode" where
  "replaceNodeAtPath_ins rt p newNode =
     (if length p = 0 then Inr newNode
      else
        (let parentP = parentPath p; childIdx = indexInParent p in
         case getNodeAtPath rt parentP of
           None \<Rightarrow> Inr rt
         | Some parent \<Rightarrow>
             (case replaceChild_ins parent (nat childIdx) newNode of
                Inl e \<Rightarrow> Inl e
              | Inr newParent \<Rightarrow> replaceNodeAtPath_ins rt parentP newParent)))"
  by pat_completeness auto
termination
  by (relation "measure (\<lambda>(rt, p, n). length p)") (auto simp: parentPath_def)

declare replaceNodeAtPath_ins.simps [simp del]

text \<open>The \<open>while\<close> loop of \<open>findContainingRow\<close> (insert.ts).\<close>

function findRowAncestor :: "MathNode \<Rightarrow> nat list \<Rightarrow> nat \<Rightarrow> (nat list \<times> nat) option" where
  "findRowAncestor rt currentPath posOffset =
     (if length currentPath > 0 then
        (let parentP = parentPath currentPath in
         case getNodeAtPath rt parentP of
           Some parent \<Rightarrow>
             if kind parent = KRow
             then Some (parentP, nat (indexInParent currentPath + (if posOffset > 0 then 1 else 0)))
             else findRowAncestor rt parentP posOffset
         | None \<Rightarrow> findRowAncestor rt parentP posOffset)
      else None)"
  by pat_completeness auto
termination
  by (relation "measure (\<lambda>(rt, p, off). length p)") (auto simp: parentPath_def)

declare findRowAncestor.simps [simp del]

definition findContainingRow :: "MathNode \<Rightarrow> CursorPosition \<Rightarrow> (nat list \<times> nat) option" where
  "findContainingRow rt pos =
     (case getNodeAtPath rt (path pos) of
        None \<Rightarrow> None
      | Some node \<Rightarrow>
          if kind node = KRow then Some (path pos, offset pos)
          else (case findRowAncestor rt (path pos) (offset pos) of
                  Some r \<Rightarrow> Some r
                | None \<Rightarrow> if kind rt = KRow then Some ([], 0) else None))"

definition deleteSelectionContent ::
  "MathNode \<Rightarrow> Selection \<Rightarrow> failure + MathNode \<times> CursorPosition" where
  "deleteSelectionContent rt sel =
     (if isCollapsed sel then Inr (rt, focus sel)
      else
        (let start = getStart sel; end' = getEnd sel in
         if length (path start) = length (path end') \<and> path start = path end' then
           (case getNodeAtPath rt (path start) of
              None \<Rightarrow> Inr (rt, start)
            | Some node \<Rightarrow>
                if kind node \<noteq> KRow then Inr (rt, start)
                else
                  (let cs = children node;
                       newChildren = slice cs 0 (offset start) @ sliceFrom cs (offset end');
                       finalChildren = orPlaceholder newChildren;
                       newRow = Row finalChildren
                   in case replaceNodeAtPath_ins rt (path start) newRow of
                        Inl e \<Rightarrow> Inl e
                      | Inr newRoot \<Rightarrow> Inr (newRoot, start)))
         else
           (let commonPath = findCommonAncestorPath (path start) (path end') in
            case getNodeAtPath rt commonPath of
              None \<Rightarrow> Inr (rt, start)
            | Some commonNode \<Rightarrow>
                if kind commonNode = KRow then
                  (let startIdx = (if length (path start) > length commonPath
                                   then path start ! length commonPath else offset start);
                       endIdx = (if length (path end') > length commonPath
                                 then path end' ! length commonPath + 1 else offset end');
                       cs = children commonNode;
                       newChildren = slice cs 0 startIdx @ sliceFrom cs endIdx;
                       finalChildren = orPlaceholder newChildren;
                       newRow = Row finalChildren
                   in case replaceNodeAtPath_ins rt commonPath newRow of
                        Inl e \<Rightarrow> Inl e
                      | Inr newRoot \<Rightarrow> Inr (newRoot, cursor commonPath startIdx))
                else Inr (rt, start))))"

definition insertNodeAtPosition ::
  "MathNode \<Rightarrow> CursorPosition \<Rightarrow> MathNode \<Rightarrow> failure + (MathNode \<times> CursorPosition) option" where
  "insertNodeAtPosition rt pos newNode =
     (case getNodeAtPath rt (path pos) of
        None \<Rightarrow> Inr None
      | Some targetNode \<Rightarrow>
          if kind targetNode \<noteq> KRow then Inr None
          else
            (let cs = children targetNode in
             if length cs = 1 \<and> kind (cs ! 0) = KPlaceholder then
               (case replaceNodeAtPath_ins rt (path pos) (Row (cs[0 := newNode])) of
                  Inl e \<Rightarrow> Inl e
                | Inr newRoot \<Rightarrow> Inr (Some (newRoot, cursor (path pos) 1)))
             else
               (let spliced = take (offset pos) cs @ [newNode] @ drop (offset pos) cs in
                case replaceNodeAtPath_ins rt (path pos) (Row spliced) of
                  Inl e \<Rightarrow> Inl e
                | Inr newRoot \<Rightarrow> Inr (Some (newRoot, cursor (path pos) (offset pos + 1))))))"

text \<open>The part shared by the leaf insertions: insert \<open>newNode\<close> after deleting the selection.\<close>

definition insertLeaf :: "MathNode \<Rightarrow> Command" where
  "insertLeaf newNode state =
     (case deleteSelectionContent (root state) (selection state) of
        Inl e \<Rightarrow> Inl e
      | Inr (cleanRoot, cleanPos) \<Rightarrow>
          (case insertNodeAtPosition cleanRoot cleanPos newNode of
             Inl e \<Rightarrow> Inl e
           | Inr None \<Rightarrow> Inr None
           | Inr (Some (newRoot, newPos)) \<Rightarrow>
               Inr (Some (updateState state newRoot (collapsedSelection newPos)))))"

definition isOperatorChar :: "char \<Rightarrow> bool" where
  "isOperatorChar c =
     (c \<in> set [CHR ''+'', CHR ''-'', CHR ''='', CHR ''<'', CHR ''>'', CHR ''*'',
               CHR ''/'', CHR ''!'', CHR 0x27, CHR '','', CHR ''.'', CHR '':'', CHR '';''])"

definition classifyCharacter :: "string \<Rightarrow> MathNode" where
  "classifyCharacter ch =
     (case ch of
        [c] \<Rightarrow> if isDigit c then Number ch
               else if isLetter c then Symbol ch
               else if isOperatorChar c then Operator ch
               else Symbol ch
      | _ \<Rightarrow> Symbol ch)"

definition insertCharacter :: "string \<Rightarrow> Command" where
  "insertCharacter ch state = insertLeaf (classifyCharacter ch) state"

definition insertOperator :: "string \<Rightarrow> Command" where
  "insertOperator op state =
     (let normalizedOp = (case op of c # cs \<Rightarrow> if c = BS then cs else op | [] \<Rightarrow> op)
      in insertLeaf (Operator normalizedOp) state)"

definition insertSuperscript :: Command where
  "insertSuperscript state =
     (case findContainingRow (root state) (focus (selection state)) of
        None \<Rightarrow> Inr None
      | Some (rowPath, off) \<Rightarrow>
          (case getNodeAtPath (root state) rowPath of
             None \<Rightarrow> Inr None
           | Some row \<Rightarrow>
               if kind row \<noteq> KRow then Inr None
               else
                 (let cs = children row;
                      childIdx = (if off > 0 then off - 1 else 0)
                  in if childIdx \<ge> length cs then Inr None
                     else
                       (let base = cs ! childIdx;
                            powerNode = Power base (Row [Placeholder]);
                            newChildren = slice cs 0 childIdx @ [powerNode] @ sliceFrom cs (childIdx + 1);
                            newRow = Row newChildren
                        in case replaceNodeAtPath_ins (root state) rowPath newRow of
                             Inl e \<Rightarrow> Inl e
                           | Inr newRoot \<Rightarrow>
                               Inr (Some (updateState state newRoot
                                     (collapsedSelection (cursor (rowPath @ [childIdx, 1]) 0))))))))"

text \<open>
  \<open>extractSelectedNodes\<close> of selection.ts: the selected children as a row, or the common
  ancestor itself when it is not a row.
\<close>

definition extractSelectedNodes :: "MathNode \<Rightarrow> Selection \<Rightarrow> MathNode option" where
  "extractSelectedNodes rt sel =
     (if isCollapsed sel then None
      else
        (let comparison = compareCursors (anchor sel) (focus sel);
             start = (if comparison \<le> 0 then anchor sel else focus sel);
             end' = (if comparison \<le> 0 then focus sel else anchor sel)
         in if length (path start) = length (path end') \<and> path start = path end' then
              (case getNodeAtPath rt (path start) of
                 None \<Rightarrow> None
               | Some row \<Rightarrow>
                   if kind row \<noteq> KRow then None
                   else
                     (let selectedChildren = slice (children row) (offset start) (offset end')
                      in if length selectedChildren = 0 then None
                         else Some (Row selectedChildren)))
            else
              (let commonPath = findCommonAncestorPath (path start) (path end') in
               case getNodeAtPath rt commonPath of
                 None \<Rightarrow> None
               | Some commonAncestor \<Rightarrow>
                   if kind commonAncestor = KRow then
                     (let startIdx = (if length (path start) > length commonPath
                                      then path start ! length commonPath else offset start);
                          endIdx = (if length (path end') > length commonPath
                                    then path end' ! length commonPath + 1 else offset end');
                          selectedChildren = slice (children commonAncestor) startIdx endIdx
                      in if length selectedChildren = 0 then None
                         else Some (Row selectedChildren))
                   else Some commonAncestor)))"

text \<open>
  The branch of \<open>insertFraction\<close> for a collapsed selection: an empty fraction whose slots
  are rows holding a placeholder, with the cursor in the numerator row. The fallback of
  \<open>wrapSelectionInFraction\<close> calls \<open>insertFraction\<close> on a collapsed selection, which takes
  this branch.
\<close>

definition insertEmptyFraction :: Command where
  "insertEmptyFraction state =
     (let pos = focus (selection state);
          fraction = Fraction (Row [Placeholder]) (Row [Placeholder])
      in case insertNodeAtPosition (root state) pos fraction of
           Inl e \<Rightarrow> Inl e
         | Inr None \<Rightarrow> Inr None
         | Inr (Some (newRoot, insertPos)) \<Rightarrow>
             (let fracPath = path insertPos @ [offset insertPos - 1];
                  cursorPos = cursor (fracPath @ [0]) 0
              in Inr (Some (updateState state newRoot (collapsedSelection cursorPos)))))"

definition wrapSelectionInFraction :: Command where
  "wrapSelectionInFraction state =
     (case extractSelectedNodes (root state) (selection state) of
        None \<Rightarrow>
          insertEmptyFraction
            (updateState state (root state) (collapsedSelection (getStart (selection state))))
      | Some selectedNode \<Rightarrow>
          (case deleteSelectionContent (root state) (selection state) of
             Inl e \<Rightarrow> Inl e
           | Inr (cleanRoot, cleanPos) \<Rightarrow>
               (let numeratorContent = (if kind selectedNode = KRow then selectedNode
                                        else Row [selectedNode]);
                    fraction = Fraction numeratorContent (Row [Placeholder])
                in case insertNodeAtPosition cleanRoot cleanPos fraction of
                     Inl e \<Rightarrow> Inl e
                   | Inr None \<Rightarrow> Inr None
                   | Inr (Some (newRoot, insertPos)) \<Rightarrow>
                       (let fracPath = path insertPos @ [offset insertPos - 1];
                            cursorPos = cursor (fracPath @ [1]) 0
                        in Inr (Some (updateState state newRoot (collapsedSelection cursorPos)))))))"

definition insertFraction :: Command where
  "insertFraction state =
     (if \<not> isCollapsed (selection state) then wrapSelectionInFraction state
      else insertEmptyFraction state)"

section \<open>Serializer (src/parser/ast-to-latex.ts)\<close>

definition GREEK_LETTERS :: "string list" where
  "GREEK_LETTERS =
     [''alpha'', ''beta'', ''gamma'', ''delta'', ''epsilon'', ''zeta'', ''eta'', ''theta'',
      ''iota'', ''kappa'', ''lambda'', ''mu'', ''nu'', ''xi'', ''omicron'', ''pi'',
      ''rho'', ''sigma'', ''tau'', ''upsilon'', ''phi'', ''chi'', ''psi'', ''omega'',
      ''Alpha'', ''Beta'', ''Gamma'', ''Delta'', ''Epsilon'', ''Zeta'', ''Eta'', ''Theta'',
      ''Iota'', ''Kappa'', ''Lambda'', ''Mu'', ''Nu'', ''Xi'', ''Omicron'', ''Pi'',
      ''Rho'', ''Sigma'', ''Tau'', ''Upsilon'', ''Phi'', ''Chi'', ''Psi'', ''Omega'',
      ''varepsilon'', ''vartheta'', ''varpi'', ''varrho'', ''varsigma'', ''varphi'']"

definition OPERATORS :: "string list" where
  "OPERATORS =
     [''times'', ''div'', ''cdot'', ''pm'', ''mp'', ''ast'', ''star'', ''circ'', ''bullet'',
      ''oplus'', ''ominus'', ''otimes'', ''oslash'', ''odot'',
      ''le'', ''leq'', ''ge'', ''geq'', ''neq'', ''ne'', ''approx'', ''equiv'', ''sim'', ''simeq'',
      ''ll'', ''gg'', ''subset'', ''supset'', ''subseteq'', ''supseteq'', ''in'', ''notin'', ''ni'',
      ''cup'', ''cap'', ''setminus'', ''emptyset'', ''varnothing'',
      ''forall'', ''exists'', ''nexists'', ''neg'', ''land'', ''lor'', ''implies'', ''iff'',
      ''to'', ''gets'', ''leftarrow'', ''rightarrow'', ''leftrightarrow'',
      ''Leftarrow'', ''Rightarrow'', ''Leftrightarrow'',
      ''infty'', ''partial'', ''nabla'', ''degree'',
      ''ldots'', ''cdots'', ''vdots'', ''ddots'',
      ''mapsto'', ''longmapsto'',
      ''uparrow'', ''downarrow'', ''updownarrow'',
      ''Uparrow'', ''Downarrow'', ''Updownarrow'',
      ''nearrow'', ''searrow'', ''swarrow'', ''nwarrow'',
      ''propto'', ''cong'', ''mid'',
      ''%'']"

text \<open>The serializer's operator set is the parser's with the delimiter names added.\<close>

definition COMMAND_OPERATORS :: "string list" where
  "COMMAND_OPERATORS =
     OPERATORS @ [''langle'', ''rangle'', ''lvert'', ''rvert'', ''lVert'', ''rVert'',
                  ''lfloor'', ''rfloor'', ''lceil'', ''rceil'']"

definition FUNCTIONS :: "string list" where
  "FUNCTIONS =
     [''sin'', ''cos'', ''tan'', ''cot'', ''sec'', ''csc'',
      ''arcsin'', ''arccos'', ''arctan'', ''arccot'',
      ''sinh'', ''cosh'', ''tanh'', ''coth'',
      ''log'', ''ln'', ''lg'', ''exp'',
      ''lim'', ''limsup'', ''liminf'',
      ''min'', ''max'', ''sup'', ''inf'',
      ''det'', ''dim'', ''ker'', ''hom'', ''arg'',
      ''deg'', ''gcd'', ''lcm'', ''mod'', ''bmod'', ''pmod'',
      ''Pr'']"

definition LARGE_OPERATORS :: "string list" where
  "LARGE_OPERATORS =
     [''sum'', ''prod'', ''coprod'', ''int'', ''oint'', ''iint'', ''iiint'',
      ''bigcup'', ''bigcap'', ''bigoplus'', ''bigotimes'', ''bigvee'', ''bigwedge'']"

definition SERIALIZER_FUNCTIONS :: "string list" where
  "SERIALIZER_FUNCTIONS = FUNCTIONS @ LARGE_OPERATORS"

record SerializeOptions =
  prettyPrint :: bool
  includePlaceholders :: bool

definition defaultOptions :: SerializeOptions where
  "defaultOptions = \<lparr>prettyPrint = False, includePlaceholders = True\<rparr>"

definition needsBraces :: "MathNode \<Rightarrow> bool" where
  "needsBraces n =
     (case n of
        Row cs \<Rightarrow> True
      | Number v \<Rightarrow> length v > 1
      | Symbol v \<Rightarrow> length v > 1 \<and> v \<notin> set GREEK_LETTERS
      | Placeholder \<Rightarrow> True
      | Fraction a b \<Rightarrow> True
      | Sqrt r i \<Rightarrow> True
      | Parens opn cls c sz \<Rightarrow> True
      | Power b e \<Rightarrow> True
      | Subscript b s \<Rightarrow> True
      | SubSup b s e \<Rightarrow> True
      | _ \<Rightarrow> False)"

definition serializeSpace :: "SpaceSize \<Rightarrow> string" where
  "serializeSpace sz =
     (case sz of thin \<Rightarrow> [BS, CHR '','']
      | medium \<Rightarrow> [BS, CHR '':'']
      | thick \<Rightarrow> [BS, CHR '';'']
      | quad \<Rightarrow> BS # ''quad''
      | qquad \<Rightarrow> BS # ''qquad'')"

definition serializeOperator :: "string \<Rightarrow> SerializeOptions \<Rightarrow> string" where
  "serializeOperator v options =
     (let space = (if prettyPrint options then '' '' else '''') in
      if v \<in> set COMMAND_OPERATORS then space @ [BS] @ v @ '' ''
      else if v \<in> set [''+'', ''-'', ''='', ''<'', ''>''] then space @ v @ space
      else v)"

definition serializeDelimiter :: "string \<Rightarrow> string" where
  "serializeDelimiter delim =
     (if delim = ''{'' then [BS, CHR ''{'']
      else if delim = ''}'' then [BS, CHR ''}'']
      else delim)"

definition startsWith :: "string \<Rightarrow> string \<Rightarrow> bool" where
  "startsWith s pre = (take (length pre) s = pre)"

fun joinWith :: "string \<Rightarrow> string list \<Rightarrow> string" where
  "joinWith sep [] = []"
| "joinWith sep [x] = x"
| "joinWith sep (x # y # ys) = x @ sep @ joinWith sep (y # ys)"

text \<open>The script suffix \<open>_{s}\<close> or \<open>_s\<close> (\<open>^{s}\<close> or \<open>^s\<close>) of an already serialized script.\<close>

definition scriptPart :: "char \<Rightarrow> MathNode \<Rightarrow> string \<Rightarrow> string" where
  "scriptPart mark n s = (if needsBraces n then [mark] @ ''{'' @ s @ ''}'' else [mark] @ s)"

text \<open>
  \<open>serializeFunction\<close>, given the limits and the argument that are present, each with its
  serialization.
\<close>

definition serializeFunction ::
  "string \<Rightarrow> (MathNode \<times> string) option \<Rightarrow> (MathNode \<times> string) option
     \<Rightarrow> (MathNode \<times> string) option \<Rightarrow> string" where
  "serializeFunction nm lower upper argument =
     (let result0 = (if nm \<in> set SERIALIZER_FUNCTIONS then BS # nm else nm);
          result1 = (case lower of
                       Some (l, lowerStr) \<Rightarrow> result0 @ scriptPart (CHR ''_'') l lowerStr
                     | None \<Rightarrow> result0);
          result2 = (case upper of
                       Some (u, upperStr) \<Rightarrow> result1 @ scriptPart (CHR ''^'') u upperStr
                     | None \<Rightarrow> result1)
      in case argument of
           None \<Rightarrow> result2
         | Some (a, argStr) \<Rightarrow>
             if startsWith argStr ''{'' \<or> startsWith argStr ''('' \<or> startsWith argStr ''[''
                \<or> startsWith argStr (BS # ''left'')
             then result2 @ argStr
             else if needsBraces a then result2 @ ''{'' @ argStr @ ''}''
             else result2 @ '' '' @ argStr)"

fun serializeNode :: "MathNode \<Rightarrow> SerializeOptions \<Rightarrow> string"
and serializeBase :: "MathNode \<Rightarrow> SerializeOptions \<Rightarrow> string"
where
  "serializeNode (Number v) options = v"
| "serializeNode (Symbol v) options = (if v \<in> set GREEK_LETTERS then BS # v else v)"
| "serializeNode (Operator v) options = serializeOperator v options"
| "serializeNode (Text v) options = BS # ''text{'' @ v @ ''}''"
| "serializeNode (Space sz) options = serializeSpace sz"
| "serializeNode Placeholder options = (if \<not> includePlaceholders options then '''' else ''{}'')"
| "serializeNode (Row cs) options = concat (map (\<lambda>child. serializeNode child options) cs)"
| "serializeNode (Fraction numerator denominator) options =
     BS # ''frac{'' @ serializeNode numerator options @ ''}{''
       @ serializeNode denominator options @ ''}''"
| "serializeNode (Power base exponent) options =
     serializeBase base options @ scriptPart (CHR ''^'') exponent (serializeNode exponent options)"
| "serializeNode (Subscript base subscr) options =
     serializeBase base options @ scriptPart (CHR ''_'') subscr (serializeNode subscr options)"
| "serializeNode (SubSup base subscr superscr) options =
     serializeBase base options
       @ scriptPart (CHR ''_'') subscr (serializeNode subscr options)
       @ scriptPart (CHR ''^'') superscr (serializeNode superscr options)"
| "serializeNode (Sqrt radicand index) options =
     (case index of
        Some i \<Rightarrow> BS # ''sqrt['' @ serializeNode i options @ '']{''
                    @ serializeNode radicand options @ ''}''
      | None \<Rightarrow> BS # ''sqrt{'' @ serializeNode radicand options @ ''}'')"
| "serializeNode (Parens opn cls content sz) options =
     (if sz = Some ''auto''
      then BS # ''left'' @ serializeDelimiter opn @ serializeNode content options
             @ BS # ''right'' @ serializeDelimiter cls
      else (if opn = ''{'' then [BS, CHR ''{''] else opn) @ serializeNode content options
             @ (if cls = ''}'' then [BS, CHR ''}''] else cls))"
| "serializeNode (Function nm argument None) options =
     serializeFunction nm None None
       (map_option (\<lambda>a. (a, serializeNode a options)) argument)"
| "serializeNode (Function nm argument (Some (lower, upper))) options =
     serializeFunction nm
       (map_option (\<lambda>l. (l, serializeNode l options)) lower)
       (map_option (\<lambda>u. (u, serializeNode u options)) upper)
       (map_option (\<lambda>a. (a, serializeNode a options)) argument)"
| "serializeNode (Matrix rs st cspec) options =
     BS # ''begin{'' @ st @ ''}''
       @ (case cspec of Some c \<Rightarrow> if st = ''array'' \<and> c \<noteq> [] then ''{'' @ c @ ''}'' else ''''
          | None \<Rightarrow> '''')
       @ joinWith ([CHR '' '', BS, BS, CHR '' ''])
           (map (\<lambda>row. joinWith '' & '' (map (\<lambda>cell. serializeNode cell options) row)) rs)
       @ BS # ''end{'' @ st @ ''}''"
| "serializeBase (Row [child]) options =
     (if kind child = KSymbol \<or> kind child = KNumber then serializeNode child options
      else ''{'' @ serializeNode (Row [child]) options @ ''}'')"
| "serializeBase n options =
     (let serialized = serializeNode n options in
      if kind n \<in> set [KRow, KFraction, KPower, KSubscript, KSubSup]
      then ''{'' @ serialized @ ''}'' else serialized)"

definition serializeToLatex :: "MathNode \<Rightarrow> SerializeOptions \<Rightarrow> string" where
  "serializeToLatex ast options = serializeNode ast options"

section \<open>Structural equality (src/core/ast.ts)\<close>

definition optionsEqual :: "('a \<Rightarrow> 'a \<Rightarrow> bool) \<Rightarrow> 'a option \<Rightarrow> 'a option \<Rightarrow> bool" where
  "optionsEqual eq a b =
     (case (a, b) of
        (Some x, Some y) \<Rightarrow> eq x y
      | (None, None) \<Rightarrow> True
      | _ \<Rightarrow> False)"

lemma optionsEqual_cong [fundef_cong]:
  "a = a' \<Longrightarrow> b = b' \<Longrightarrow> (\<And>x y. a' = Some x \<Longrightarrow> b' = Some y \<Longrightarrow> eq x y = eq' x y) \<Longrightarrow>
   optionsEqual eq a b = optionsEqual eq' a' b'"
  by (auto simp: optionsEqual_def split: option.splits)

fun nodesEqual :: "MathNode \<Rightarrow> MathNode \<Rightarrow> bool" where
  "nodesEqual (Number a) b = (case b of Number bv \<Rightarrow> a = bv | _ \<Rightarrow> False)"
| "nodesEqual (Symbol a) b = (case b of Symbol bv \<Rightarrow> a = bv | _ \<Rightarrow> False)"
| "nodesEqual (Operator a) b = (case b of Operator bv \<Rightarrow> a = bv | _ \<Rightarrow> False)"
| "nodesEqual (Text a) b = (case b of Text bv \<Rightarrow> a = bv | _ \<Rightarrow> False)"
| "nodesEqual (Space a) b = (case b of Space bv \<Rightarrow> a = bv | _ \<Rightarrow> False)"
| "nodesEqual Placeholder b = (case b of Placeholder \<Rightarrow> True | _ \<Rightarrow> False)"
| "nodesEqual (Row as) b =
     (case b of Row bs \<Rightarrow> length as = length bs \<and> list_all2 nodesEqual as bs | _ \<Rightarrow> False)"
| "nodesEqual (Fraction an ad) b =
     (case b of Fraction bn bd \<Rightarrow> nodesEqual an bn \<and> nodesEqual ad bd | _ \<Rightarrow> False)"
| "nodesEqual (Power ab ae) b =
     (case b of Power bb be \<Rightarrow> nodesEqual ab bb \<and> nodesEqual ae be | _ \<Rightarrow> False)"
| "nodesEqual (Subscript ab as) b =
     (case b of Subscript bb bs \<Rightarrow> nodesEqual ab bb \<and> nodesEqual as bs | _ \<Rightarrow> False)"
| "nodesEqual (SubSup ab as ae) b =
     (case b of
        SubSup bb bs be \<Rightarrow> nodesEqual ab bb \<and> nodesEqual as bs \<and> nodesEqual ae be
      | _ \<Rightarrow> False)"
| "nodesEqual (Sqrt ar ai) b =
     (case b of
        Sqrt br bi \<Rightarrow> nodesEqual ar br \<and> optionsEqual nodesEqual ai bi
      | _ \<Rightarrow> False)"
| "nodesEqual (Parens ao ac a asz) b =
     (case b of
        Parens bo bc bcontent bsz \<Rightarrow>
          ao = bo \<and> ac = bc \<and> asz = bsz \<and> nodesEqual a bcontent
      | _ \<Rightarrow> False)"
| "nodesEqual (Function an aa al) b =
     (case b of
        Function bn ba bl \<Rightarrow>
          an = bn \<and> optionsEqual nodesEqual aa ba
          \<and> optionsEqual
               (\<lambda>(alo, aup) (blo, bup).
                  optionsEqual nodesEqual alo blo \<and> optionsEqual nodesEqual aup bup)
               al bl
      | _ \<Rightarrow> False)"
| "nodesEqual (Matrix ars ast acs) b =
     (case b of
        Matrix brs bst bcs \<Rightarrow>
          ast = bst \<and> acs = bcs \<and> length ars = length brs
          \<and> list_all2 (\<lambda>row bRow. length row = length bRow \<and> list_all2 nodesEqual row bRow)
               ars brs
      | _ \<Rightarrow> False)"

section \<open>Token stream (src/parser/tokens.ts)\<close>

text \<open>
  The stream is the list of tokens from the current position on. Past the end of the
  array \<open>peek\<close> answers a synthetic end-of-input token at position -1.
\<close>

definition peek :: "Token list \<Rightarrow> Token" where
  "peek ts = (case ts of t # _ \<Rightarrow> t
              | [] \<Rightarrow> \<lparr>tok_type = TEof, tok_value = [], tok_position = -1\<rparr>)"

definition advance :: "Token list \<Rightarrow> Token list" where
  "advance ts = (case ts of t # rest \<Rightarrow> rest | [] \<Rightarrow> [])"

definition isType :: "TokenType \<Rightarrow> Token list \<Rightarrow> bool" where
  "isType ty ts = (tok_type (peek ts) = ty)"

definition isValue :: "TokenType \<Rightarrow> string \<Rightarrow> Token list \<Rightarrow> bool" where
  "isValue ty v ts = (tok_type (peek ts) = ty \<and> tok_value (peek ts) = v)"

definition isEof :: "Token list \<Rightarrow> bool" where
  "isEof ts = isType TEof ts"

definition skipWhitespace :: "Token list \<Rightarrow> Token list" where
  "skipWhitespace ts = dropWhile (\<lambda>t. tok_type t = TWhitespace) ts"

fun typeName :: "TokenType \<Rightarrow> string" where
  "typeName TCommand = ''command''"
| "typeName TText = ''text''"
| "typeName TNumber = ''number''"
| "typeName TOperator = ''operator''"
| "typeName TSuperscript = ''superscript''"
| "typeName TSubscript = ''subscript''"
| "typeName TOpenBrace = ''openBrace''"
| "typeName TCloseBrace = ''closeBrace''"
| "typeName TOpenBracket = ''openBracket''"
| "typeName TCloseBracket = ''closeBracket''"
| "typeName TOpenParen = ''openParen''"
| "typeName TCloseParen = ''closeParen''"
| "typeName TPipe = ''pipe''"
| "typeName TAmpersand = ''ampersand''"
| "typeName TNewline = ''newline''"
| "typeName TWhitespace = ''whitespace''"
| "typeName TEof = ''eof''"

section \<open>Parser (src/parser/latex-to-ast.ts)\<close>

datatype ParseError =
    Expected TokenType Token
  | ExpectedValue TokenType string Token
  | UnexpectedToken int
  | UnexpectedDelimiter string
  | InvalidDelimiter string
  | UnknownEnvironment string
  | EnvironmentMismatch string string

text \<open>
  A parsing step returns a value and the stream after it, throws, or runs out of the
  fuel that bounds the recursion.
\<close>

datatype 'a presult = POk 'a "Token list" | PErr ParseError | PTimeout

definition pbind :: "'a presult \<Rightarrow> ('a \<Rightarrow> Token list \<Rightarrow> 'b presult) \<Rightarrow> 'b presult" where
  "pbind m f = (case m of POk x ts \<Rightarrow> f x ts | PErr e \<Rightarrow> PErr e | PTimeout \<Rightarrow> PTimeout)"

definition expect :: "TokenType \<Rightarrow> Token list \<Rightarrow> Token presult" where
  "expect ty ts =
     (if tok_type (peek ts) \<noteq> ty then PErr (Expected ty (peek ts))
      else POk (peek ts) (advance ts))"

definition expectValue :: "TokenType \<Rightarrow> string \<Rightarrow> Token list \<Rightarrow> Token presult" where
  "expectValue ty v ts =
     (if tok_type (peek ts) \<noteq> ty \<or> tok_value (peek ts) \<noteq> v
      then PErr (ExpectedValue ty v (peek ts))
      else POk (peek ts) (advance ts))"

definition SPACE_COMMANDS :: "(string \<times> SpaceSize) list" where
  "SPACE_COMMANDS =
     [([BS, CHR '',''], thin), ([BS, CHR '':''], medium), ([BS, CHR '';''], thick),
      (BS # ''quad'', quad), (BS # ''qquad'', qquad)]"

definition MATRIX_ENVIRONMENTS :: "string list" where
  "MATRIX_ENVIRONMENTS =
     [''matrix'', ''pmatrix'', ''bmatrix'', ''Bmatrix'', ''vmatrix'', ''Vmatrix'', ''array'']"

definition DELIMITER_COMMANDS :: "string list" where
  "DELIMITER_COMMANDS =
     [''langle'', ''rangle'', ''lvert'', ''rvert'', ''lVert'', ''rVert'',
      ''lfloor'', ''rfloor'', ''lceil'', ''rceil'']"

text \<open>The end of \<open>parseRow\<close>: no child gives a placeholder, one child is returned bare.\<close>

definition simplifyRow :: "MathNode list \<Rightarrow> MathNode" where
  "simplifyRow cs =
     (if length cs = 0 then Placeholder
      else if length cs = 1 then cs ! 0
      else Row cs)"

text \<open>The end of \<open>parseScript\<close>.\<close>

definition attachScripts :: "MathNode \<Rightarrow> MathNode option \<Rightarrow> MathNode option \<Rightarrow> MathNode" where
  "attachScripts base superscr subscr =
     (case (superscr, subscr) of
        (Some sp, Some sb) \<Rightarrow> SubSup base sb sp
      | (Some sp, None) \<Rightarrow> Power base sp
      | (None, Some sb) \<Rightarrow> Subscript base sb
      | (None, None) \<Rightarrow> base)"

text \<open>The values of the tokens up to the next closing brace or the end of input, joined.\<close>

definition readUntilCloseBrace :: "Token list \<Rightarrow> string \<times> Token list" where
  "readUntilCloseBrace ts =
     (concat (map tok_value (takeWhile (\<lambda>t. tok_type t \<noteq> TCloseBrace \<and> tok_type t \<noteq> TEof) ts)),
      dropWhile (\<lambda>t. tok_type t \<noteq> TCloseBrace \<and> tok_type t \<noteq> TEof) ts)"

definition parseOperator :: "Token list \<Rightarrow> MathNode presult" where
  "parseOperator ts = POk (Operator (tok_value (peek ts))) (advance ts)"

definition parseText :: "Token list \<Rightarrow> MathNode presult" where
  "parseText ts =
     pbind (expect TOpenBrace (skipWhitespace ts)) (\<lambda>_ ts1.
       case readUntilCloseBrace ts1 of
         (txt, ts2) \<Rightarrow> pbind (expect TCloseBrace ts2) (\<lambda>_ ts3. POk (Text txt) ts3))"

definition parseDelimiter :: "Token list \<Rightarrow> string presult" where
  "parseDelimiter ts =
     (let ts1 = skipWhitespace ts; token = peek ts1; ts2 = advance ts1;
          cmd = drop 1 (tok_value token)
      in if tok_type token = TOpenParen then POk ''('' ts2
         else if tok_type token = TCloseParen then POk '')'' ts2
         else if tok_type token = TOpenBracket then POk ''['' ts2
         else if tok_type token = TCloseBracket then POk '']'' ts2
         else if tok_type token = TPipe then POk ''|'' ts2
         else if tok_type token = TOperator \<and> tok_value token = ''.'' then POk ''.'' ts2
         else if tok_type token = TCommand \<and> cmd = ''langle'' then POk (BS # ''langle'') ts2
         else if tok_type token = TCommand \<and> cmd = ''rangle'' then POk (BS # ''rangle'') ts2
         else if tok_type token = TCommand \<and> (cmd = ''{'' \<or> cmd = ''lbrace'') then POk ''{'' ts2
         else if tok_type token = TCommand \<and> (cmd = ''}'' \<or> cmd = ''rbrace'') then POk ''}'' ts2
         else if tok_type token = TCommand \<and> (cmd = ''|'' \<or> cmd = ''vert'') then POk ''|'' ts2
         else if tok_type token = TCommand \<and> (cmd = ''Vert'' \<or> cmd = ''|'') then POk [BS, CHR ''|''] ts2
         else PErr (InvalidDelimiter (tok_value token)))"

definition rowStops :: "string list \<Rightarrow> Token \<Rightarrow> bool" where
  "rowStops stopTokens token =
     (tok_value token \<in> set stopTokens \<or> typeName (tok_type token) \<in> set stopTokens
      \<or> tok_type token = TCloseBrace \<or> tok_type token = TCloseBracket
      \<or> tok_type token = TCloseParen
      \<or> tok_type token = TAmpersand \<or> tok_type token = TNewline)"

text \<open>
  The productions call one another; every call spends one unit of fuel. A
  \<open>ParserLevel\<close> holds the productions at one fuel level, and each production's body
  takes the level below it for its calls: \<open>callParseAtom prev\<close> is \<open>parseAtom\<close> with
  one unit less. The recursive equations of the productions are the lemmas
  \<open>parseRowLoop_Suc\<close> to \<open>parseMatrix_Suc\<close> below.
\<close>

record ParserLevel =
  callParseRowLoop :: "string list \<Rightarrow> MathNode list \<Rightarrow> Token list \<Rightarrow> MathNode presult"
  callParseAtom :: "Token list \<Rightarrow> MathNode option presult"
  callParseNumber :: "Token list \<Rightarrow> MathNode presult"
  callParseSymbol :: "Token list \<Rightarrow> MathNode presult"
  callParseCommand :: "Token list \<Rightarrow> MathNode presult"
  callParseScriptLoop :: "MathNode option \<Rightarrow> MathNode option \<Rightarrow> Token list \<Rightarrow> (MathNode option \<times> MathNode option) presult"
  callParseScript :: "MathNode \<Rightarrow> Token list \<Rightarrow> MathNode presult"
  callParseScriptArg :: "Token list \<Rightarrow> MathNode presult"
  callParseGroup :: "Token list \<Rightarrow> MathNode presult"
  callParseDelimitedGroup :: "Token list \<Rightarrow> MathNode presult"
  callParseFraction :: "Token list \<Rightarrow> MathNode presult"
  callParseSqrt :: "Token list \<Rightarrow> MathNode presult"
  callParseFunction :: "string \<Rightarrow> Token list \<Rightarrow> MathNode presult"
  callParseLargeOperator :: "string \<Rightarrow> Token list \<Rightarrow> MathNode presult"
  callParseLeftRight :: "Token list \<Rightarrow> MathNode presult"
  callParseEnvironment :: "Token list \<Rightarrow> MathNode presult"
  callParseMatrixLoop :: "MathNode list list \<Rightarrow> MathNode list \<Rightarrow> Token list \<Rightarrow> (MathNode list list \<times> MathNode list) presult"
  callParseMatrix :: "string \<Rightarrow> Token list \<Rightarrow> MathNode presult"

definition parseRowLoop_body :: "ParserLevel \<Rightarrow> string list \<Rightarrow> MathNode list \<Rightarrow> Token list \<Rightarrow> MathNode presult" where
  "parseRowLoop_body prev stopTokens cs ts =
     (if isEof ts then POk (simplifyRow cs) ts
      else
        (let ts1 = skipWhitespace ts in
         if rowStops stopTokens (peek ts1) then POk (simplifyRow cs) ts1
         else pbind (callParseAtom prev ts1) (\<lambda>atom ts2.
                callParseRowLoop prev stopTokens
                  (case atom of Some a \<Rightarrow> cs @ [a] | None \<Rightarrow> cs) ts2)))"

definition parseAtom_body :: "ParserLevel \<Rightarrow> Token list \<Rightarrow> MathNode option presult" where
  "parseAtom_body prev ts =
     (let ts1 = skipWhitespace ts; ty = tok_type (peek ts1) in
      if ty = TNumber then pbind (callParseNumber prev ts1) (\<lambda>n ts2. POk (Some n) ts2)
      else if ty = TText then pbind (callParseSymbol prev ts1) (\<lambda>n ts2. POk (Some n) ts2)
      else if ty = TOperator then pbind (parseOperator ts1) (\<lambda>n ts2. POk (Some n) ts2)
      else if ty = TCommand then pbind (callParseCommand prev ts1) (\<lambda>n ts2. POk (Some n) ts2)
      else if ty = TOpenBrace then pbind (callParseGroup prev ts1) (\<lambda>n ts2. POk (Some n) ts2)
      else if ty = TOpenParen \<or> ty = TOpenBracket \<or> ty = TPipe
      then pbind (callParseDelimitedGroup prev ts1) (\<lambda>n ts2. POk (Some n) ts2)
      else if ty = TSuperscript \<or> ty = TSubscript
      then pbind (callParseScript prev Placeholder ts1) (\<lambda>n ts2. POk (Some n) ts2)
      else POk None ts1)"

definition parseNumber_body :: "ParserLevel \<Rightarrow> Token list \<Rightarrow> MathNode presult" where
  "parseNumber_body prev ts =
     callParseScript prev (Number (tok_value (peek ts))) (advance ts)"

definition parseSymbol_body :: "ParserLevel \<Rightarrow> Token list \<Rightarrow> MathNode presult" where
  "parseSymbol_body prev ts =
     callParseScript prev (Symbol (tok_value (peek ts))) (advance ts)"

definition parseCommand_body :: "ParserLevel \<Rightarrow> Token list \<Rightarrow> MathNode presult" where
  "parseCommand_body prev ts =
     (let token = peek ts; ts1 = advance ts; cmd = drop 1 (tok_value token) in
      case map_of SPACE_COMMANDS (tok_value token) of
        Some sz \<Rightarrow> POk (Space sz) ts1
      | None \<Rightarrow>
          if cmd \<in> set GREEK_LETTERS then callParseScript prev (Symbol cmd) ts1
          else if cmd \<in> set OPERATORS then POk (Operator cmd) ts1
          else if cmd \<in> set FUNCTIONS then callParseFunction prev cmd ts1
          else if cmd \<in> set LARGE_OPERATORS then callParseLargeOperator prev cmd ts1
          else if cmd = ''frac'' then callParseFraction prev ts1
          else if cmd = ''sqrt'' then callParseSqrt prev ts1
          else if cmd = ''text'' \<or> cmd = ''textit'' \<or> cmd = ''textbf'' \<or> cmd = ''mathrm''
          then parseText ts1
          else if cmd = ''left'' then callParseLeftRight prev ts1
          else if cmd = ''begin'' then callParseEnvironment prev ts1
          else if cmd \<in> set DELIMITER_COMMANDS then POk (Operator cmd) ts1
          else callParseScript prev (Symbol cmd) ts1)"

definition parseScriptLoop_body :: "ParserLevel \<Rightarrow> MathNode option \<Rightarrow> MathNode option \<Rightarrow> Token list \<Rightarrow> (MathNode option \<times> MathNode option) presult" where
  "parseScriptLoop_body prev superscr subscr ts =
     (if isType TSuperscript ts then
        (if superscr \<noteq> None then POk (superscr, subscr) ts
         else pbind (callParseScriptArg prev (advance ts)) (\<lambda>arg ts1.
                callParseScriptLoop prev (Some arg) subscr (skipWhitespace ts1)))
      else if isType TSubscript ts then
        (if subscr \<noteq> None then POk (superscr, subscr) ts
         else pbind (callParseScriptArg prev (advance ts)) (\<lambda>arg ts1.
                callParseScriptLoop prev superscr (Some arg) (skipWhitespace ts1)))
      else POk (superscr, subscr) ts)"

definition parseScript_body :: "ParserLevel \<Rightarrow> MathNode \<Rightarrow> Token list \<Rightarrow> MathNode presult" where
  "parseScript_body prev base ts =
     pbind (callParseScriptLoop prev None None (skipWhitespace ts)) (\<lambda>scripts ts1.
       POk (attachScripts base (fst scripts) (snd scripts)) ts1)"

definition parseScriptArg_body :: "ParserLevel \<Rightarrow> Token list \<Rightarrow> MathNode presult" where
  "parseScriptArg_body prev ts =
     (let ts1 = skipWhitespace ts; token = peek ts1 in
      if isType TOpenBrace ts1 then callParseGroup prev ts1
      else if tok_type token = TNumber then POk (Number (tok_value token)) (advance ts1)
      else if tok_type token = TText then POk (Symbol (tok_value token)) (advance ts1)
      else if tok_type token = TCommand then callParseCommand prev ts1
      else POk Placeholder ts1)"

definition parseGroup_body :: "ParserLevel \<Rightarrow> Token list \<Rightarrow> MathNode presult" where
  "parseGroup_body prev ts =
     pbind (expect TOpenBrace ts) (\<lambda>_ ts1.
       pbind (callParseRowLoop prev [] [] ts1) (\<lambda>content ts2.
         pbind (expect TCloseBrace ts2) (\<lambda>_ ts3. POk content ts3)))"

definition parseDelimitedGroup_body :: "ParserLevel \<Rightarrow> Token list \<Rightarrow> MathNode presult" where
  "parseDelimitedGroup_body prev ts =
     (let token = peek ts; ts1 = advance ts in
      if tok_type token = TOpenParen then
        pbind (callParseRowLoop prev ['')''] [] ts1) (\<lambda>content ts2.
          pbind (expect TCloseParen ts2) (\<lambda>_ ts3.
            callParseScript prev (Parens ''('' '')'' content None) ts3))
      else if tok_type token = TOpenBracket then
        pbind (callParseRowLoop prev ['']''] [] ts1) (\<lambda>content ts2.
          pbind (expect TCloseBracket ts2) (\<lambda>_ ts3.
            callParseScript prev (Parens ''['' '']'' content None) ts3))
      else if tok_type token = TPipe then
        pbind (callParseRowLoop prev [''|''] [] ts1) (\<lambda>content ts2.
          pbind (expect TPipe ts2) (\<lambda>_ ts3.
            callParseScript prev (Parens ''|'' ''|'' content None) ts3))
      else PErr (UnexpectedDelimiter (tok_value token)))"

definition parseFraction_body :: "ParserLevel \<Rightarrow> Token list \<Rightarrow> MathNode presult" where
  "parseFraction_body prev ts =
     pbind (callParseGroup prev (skipWhitespace ts)) (\<lambda>numerator ts1.
       pbind (callParseGroup prev (skipWhitespace ts1)) (\<lambda>denominator ts2.
         callParseScript prev (Fraction numerator denominator) ts2))"

definition parseSqrt_body :: "ParserLevel \<Rightarrow> Token list \<Rightarrow> MathNode presult" where
  "parseSqrt_body prev ts =
     (let ts1 = skipWhitespace ts in
      if isType TOpenBracket ts1 then
        pbind (callParseRowLoop prev ['']''] [] (advance ts1)) (\<lambda>index ts2.
          pbind (expect TCloseBracket ts2) (\<lambda>_ ts3.
            pbind (callParseGroup prev (skipWhitespace ts3)) (\<lambda>radicand ts4.
              callParseScript prev (Sqrt radicand (Some index)) ts4)))
      else
        pbind (callParseGroup prev (skipWhitespace ts1)) (\<lambda>radicand ts4.
          callParseScript prev (Sqrt radicand None) ts4))"

definition parseFunction_body :: "ParserLevel \<Rightarrow> string \<Rightarrow> Token list \<Rightarrow> MathNode presult" where
  "parseFunction_body prev nm ts =
     callParseScript prev (Function nm None None) ts"

definition parseLargeOperator_body :: "ParserLevel \<Rightarrow> string \<Rightarrow> Token list \<Rightarrow> MathNode presult" where
  "parseLargeOperator_body prev nm ts =
     (let ts1 = skipWhitespace ts in
      pbind (if isType TSubscript ts1
             then pbind (callParseScriptArg prev (advance ts1)) (\<lambda>l t. POk (Some l) (skipWhitespace t))
             else POk None ts1) (\<lambda>lower1 ts2.
        pbind (if isType TSuperscript ts2
               then pbind (callParseScriptArg prev (advance ts2)) (\<lambda>u t. POk (Some u) (skipWhitespace t))
               else POk None ts2) (\<lambda>upper ts3.
          pbind (if lower1 = None \<and> isType TSubscript ts3
                 then pbind (callParseScriptArg prev (advance ts3)) (\<lambda>l t. POk (Some l) t)
                 else POk lower1 ts3) (\<lambda>lower ts4.
            POk (Function nm None
                   (if lower \<noteq> None \<or> upper \<noteq> None then Some (lower, upper) else None))
                ts4))))"

definition parseLeftRight_body :: "ParserLevel \<Rightarrow> Token list \<Rightarrow> MathNode presult" where
  "parseLeftRight_body prev ts =
     pbind (parseDelimiter ts) (\<lambda>openDelim ts1.
       pbind (callParseRowLoop prev [BS # ''right''] [] ts1) (\<lambda>content ts2.
         pbind (expectValue TCommand (BS # ''right'') ts2) (\<lambda>_ ts3.
           pbind (parseDelimiter ts3) (\<lambda>closeDelim ts4.
             callParseScript prev (Parens openDelim closeDelim content (Some ''auto'')) ts4))))"

definition parseEnvironment_body :: "ParserLevel \<Rightarrow> Token list \<Rightarrow> MathNode presult" where
  "parseEnvironment_body prev ts =
     pbind (expect TOpenBrace (skipWhitespace ts)) (\<lambda>_ ts1.
       case readUntilCloseBrace ts1 of
         (envName, ts2) \<Rightarrow>
           pbind (expect TCloseBrace ts2) (\<lambda>_ ts3.
             if envName \<in> set MATRIX_ENVIRONMENTS then callParseMatrix prev envName ts3
             else PErr (UnknownEnvironment envName)))"

definition parseMatrixLoop_body :: "ParserLevel \<Rightarrow> MathNode list list \<Rightarrow> MathNode list \<Rightarrow> Token list \<Rightarrow> (MathNode list list \<times> MathNode list) presult" where
  "parseMatrixLoop_body prev rs currentRow ts =
     (if isEof ts then POk (rs, currentRow) ts
      else
        (let ts1 = skipWhitespace ts in
         if isValue TCommand (BS # ''end'') ts1 then POk (rs, currentRow) ts1
         else if isType TNewline ts1 then callParseMatrixLoop prev (rs @ [currentRow]) [] (advance ts1)
         else if isType TAmpersand ts1 then callParseMatrixLoop prev rs currentRow (advance ts1)
         else pbind (callParseRowLoop prev [''&'', [BS, BS], BS # ''end''] [] ts1) (\<lambda>cell ts2.
                callParseMatrixLoop prev rs (currentRow @ [cell]) ts2)))"

definition parseMatrix_body :: "ParserLevel \<Rightarrow> string \<Rightarrow> Token list \<Rightarrow> MathNode presult" where
  "parseMatrix_body prev style ts =
     pbind (if style = ''array''
            then pbind (expect TOpenBrace (skipWhitespace ts)) (\<lambda>_ ts1.
                   case readUntilCloseBrace ts1 of
                     (colSpec, ts2) \<Rightarrow>
                       pbind (expect TCloseBrace ts2) (\<lambda>_ ts3. POk (Some colSpec) ts3))
            else POk None ts) (\<lambda>colSpec ts4.
       pbind (callParseMatrixLoop prev [] [] ts4) (\<lambda>acc ts5.
         (let rs = (if length (snd acc) > 0 then fst acc @ [snd acc] else fst acc) in
          pbind (expectValue TCommand (BS # ''end'') ts5) (\<lambda>_ ts6.
            pbind (expect TOpenBrace (skipWhitespace ts6)) (\<lambda>_ ts7.
              case readUntilCloseBrace ts7 of
                (endEnvName, ts8) \<Rightarrow>
                  pbind (expect TCloseBrace ts8) (\<lambda>_ ts9.
                    if endEnvName \<noteq> style then PErr (EnvironmentMismatch style endEnvName)
                    else callParseScript prev (nodeMatrix rs style colSpec) ts9))))))"

primrec parserLevel :: "nat \<Rightarrow> ParserLevel" where
  "parserLevel 0 =
     \<lparr>callParseRowLoop = (\<lambda>_ _ _. PTimeout),
      callParseAtom = (\<lambda>_. PTimeout),
      callParseNumber = (\<lambda>_. PTimeout),
      callParseSymbol = (\<lambda>_. PTimeout),
      callParseCommand = (\<lambda>_. PTimeout),
      callParseScriptLoop = (\<lambda>_ _ _. PTimeout),
      callParseScript = (\<lambda>_ _. PTimeout),
      callParseScriptArg = (\<lambda>_. PTimeout),
      callParseGroup = (\<lambda>_. PTimeout),
      callParseDelimitedGroup = (\<lambda>_. PTimeout),
      callParseFraction = (\<lambda>_. PTimeout),
      callParseSqrt = (\<lambda>_. PTimeout),
      callParseFunction = (\<lambda>_ _. PTimeout),
      callParseLargeOperator = (\<lambda>_ _. PTimeout),
      callParseLeftRight = (\<lambda>_. PTimeout),
      callParseEnvironment = (\<lambda>_. PTimeout),
      callParseMatrixLoop = (\<lambda>_ _ _. PTimeout),
      callParseMatrix = (\<lambda>_ _. PTimeout)\<rparr>"
| "parserLevel (Suc fuel) =
     (let prev = parserLevel fuel in
      \<lparr>callParseRowLoop = parseRowLoop_body prev,
      callParseAtom = parseAtom_body prev,
      callParseNumber = parseNumber_body prev,
      callParseSymbol = parseSymbol_body prev,
      callParseCommand = parseCommand_body prev,
      callParseScriptLoop = parseScriptLoop_body prev,
      callParseScript = parseScript_body prev,
      callParseScriptArg = parseScriptArg_body prev,
      callParseGroup = parseGroup_body prev,
      callParseDelimitedGroup = parseDelimitedGroup_body prev,
      callParseFraction = parseFraction_body prev,
      callParseSqrt = parseSqrt_body prev,
      callParseFunction = parseFunction_body prev,
      callParseLargeOperator = parseLargeOperator_body prev,
      callParseLeftRight = parseLeftRight_body prev,
      callParseEnvironment = parseEnvironment_body prev,
      callParseMatrixLoop = parseMatrixLoop_body prev,
      callParseMatrix = parseMatrix_body prev\<rparr>)"

definition parseRowLoop :: "nat \<Rightarrow> string list \<Rightarrow> MathNode list \<Rightarrow> Token list \<Rightarrow> MathNode presult" where
  "parseRowLoop fuel = callParseRowLoop (parserLevel fuel)"

definition parseAtom :: "nat \<Rightarrow> Token list \<Rightarrow> MathNode option presult" where
  "parseAtom fuel = callParseAtom (parserLevel fuel)"

definition parseNumber :: "nat \<Rightarrow> Token list \<Rightarrow> MathNode presult" where
  "parseNumber fuel = callParseNumber (parserLevel fuel)"

definition parseSymbol :: "nat \<Rightarrow> Token list \<Rightarrow> MathNode presult" where
  "parseSymbol fuel = callParseSymbol (parserLevel fuel)"

definition parseCommand :: "nat \<Rightarrow> Token list \<Rightarrow> MathNode presult" where
  "parseCommand fuel = callParseCommand (parserLevel fuel)"

definition parseScriptLoop :: "nat \<Rightarrow> MathNode option \<Rightarrow> MathNode option \<Rightarrow> Token list \<Rightarrow> (MathNode option \<times> MathNode option) presult" where
  "parseScriptLoop fuel = callParseScriptLoop (parserLevel fuel)"

definition parseScript :: "nat \<Rightarrow> MathNode \<Rightarrow> Token list \<Rightarrow> MathNode presult" where
  "parseScript fuel = callParseScript (parserLevel fuel)"

definition parseScriptArg :: "nat \<Rightarrow> Token list \<Rightarrow> MathNode presult" where
  "parseScriptArg fuel = callParseScriptArg (parserLevel fuel)"

definition parseGroup :: "nat \<Rightarrow> Token list \<Rightarrow> MathNode presult" where
  "parseGroup fuel = callParseGroup (parserLevel fuel)"

definition parseDelimitedGroup :: "nat \<Rightarrow> Token list \<Rightarrow> MathNode presult" where
  "parseDelimitedGroup fuel = callParseDelimitedGroup (parserLevel fuel)"

definition parseFraction :: "nat \<Rightarrow> Token list \<Rightarrow> MathNode presult" where
  "parseFraction fuel = callParseFraction (parserLevel fuel)"

definition parseSqrt :: "nat \<Rightarrow> Token list \<Rightarrow> MathNode presult" where
  "parseSqrt fuel = callParseSqrt (parserLevel fuel)"

definition parseFunction :: "nat \<Rightarrow> string \<Rightarrow> Token list \<Rightarrow> MathNode presult" where
  "parseFunction fuel = callParseFunction (parserLevel fuel)"

definition parseLargeOperator :: "nat \<Rightarrow> string \<Rightarrow> Token list \<Rightarrow> MathNode presult" where
  "parseLargeOperator fuel = callParseLargeOperator (parserLevel fuel)"

definition parseLeftRight :: "nat \<Rightarrow> Token list \<Rightarrow> MathNode presult" where
  "parseLeftRight fuel = callParseLeftRight (parserLevel fuel)"

definition parseEnvironment :: "nat \<Rightarrow> Token list \<Rightarrow> MathNode presult" where
  "parseEnvironment fuel = callParseEnvironment (parserLevel fuel)"

definition parseMatrixLoop :: "nat \<Rightarrow> MathNode list list \<Rightarrow> MathNode list \<Rightarrow> Token list \<Rightarrow> (MathNode list list \<times> MathNode list) presult" where
  "parseMatrixLoop fuel = callParseMatrixLoop (parserLevel fuel)"

definition parseMatrix :: "nat \<Rightarrow> string \<Rightarrow> Token list \<Rightarrow> MathNode presult" where
  "parseMatrix fuel = callParseMatrix (parserLevel fuel)"

text \<open>
  \<open>parseRow(stopTokens)\<close> starts its loop with no children; the productions above call
  the loop in that form.
\<close>

definition parseRow :: "nat \<Rightarrow> string list \<Rightarrow> Token list \<Rightarrow> MathNode presult" where
  "parseRow fuel stopTokens ts = parseRowLoop fuel stopTokens [] ts"

text \<open>
  The \<open>while\<close> loop of \<open>parseRow\<close> alone: the children collected before the row is
  simplified.
\<close>

fun parseRowChildren ::
  "nat \<Rightarrow> string list \<Rightarrow> MathNode list \<Rightarrow> Token list \<Rightarrow> MathNode list presult" where
  "parseRowChildren 0 stopTokens cs ts = PTimeout"
| "parseRowChildren (Suc fuel) stopTokens cs ts =
     (if isEof ts then POk cs ts
      else
        (let ts1 = skipWhitespace ts in
         if rowStops stopTokens (peek ts1) then POk cs ts1
         else pbind (parseAtom fuel ts1) (\<lambda>atom ts2.
                parseRowChildren fuel stopTokens
                  (case atom of Some a \<Rightarrow> cs @ [a] | None \<Rightarrow> cs) ts2)))"

datatype ParseOutcome = Parsed MathNode | SyntaxError ParseError | OutOfFuel

definition parse :: "nat \<Rightarrow> Token list \<Rightarrow> ParseOutcome" where
  "parse fuel tokens =
     (case parseRow fuel [] tokens of
        POk result ts \<Rightarrow>
          if \<not> isEof ts then SyntaxError (UnexpectedToken (tok_position (peek ts)))
          else Parsed result
      | PErr e \<Rightarrow> SyntaxError e
      | PTimeout \<Rightarrow> OutOfFuel)"

definition parseLatex :: "nat \<Rightarrow> string \<Rightarrow> ParseOutcome" where
  "parseLatex fuel latex = parse fuel (tokenize latex)"

section \<open>Predicates and reference functions of the properties\<close>

text \<open>
  The state \<open>insertFraction\<close> produces from the empty state: a fraction whose two slots
  are rows holding one placeholder, the cursor at offset 0 of the numerator row.
\<close>

definition fracState :: EditorState where
  "fracState = \<lparr>root = Row [Fraction (Row [Placeholder]) (Row [Placeholder])],
                 selection = collapsedSelection (cursor [0, 0] 0)\<rparr>"

text \<open>Every row node of the tree has at least one child.\<close>

fun rowsNonEmpty :: "MathNode \<Rightarrow> bool" where
  "rowsNonEmpty (Row cs) = (cs \<noteq> [] \<and> list_all rowsNonEmpty cs)"
| "rowsNonEmpty (Fraction numerator denominator) =
     (rowsNonEmpty numerator \<and> rowsNonEmpty denominator)"
| "rowsNonEmpty (Power base exponent) = (rowsNonEmpty base \<and> rowsNonEmpty exponent)"
| "rowsNonEmpty (Subscript base subscr) = (rowsNonEmpty base \<and> rowsNonEmpty subscr)"
| "rowsNonEmpty (SubSup base subscr superscr) =
     (rowsNonEmpty base \<and> rowsNonEmpty subscr \<and> rowsNonEmpty superscr)"
| "rowsNonEmpty (Sqrt radicand index) =
     (rowsNonEmpty radicand \<and> (case index of None \<Rightarrow> True | Some i \<Rightarrow> rowsNonEmpty i))"
| "rowsNonEmpty (Parens opn cls content sz) = rowsNonEmpty content"
| "rowsNonEmpty (Function nm argument limits) =
     ((case argument of None \<Rightarrow> True | Some a \<Rightarrow> rowsNonEmpty a)
      \<and> (case limits of
            None \<Rightarrow> True
          | Some (lower, upper) \<Rightarrow>
              (case lower of None \<Rightarrow> True | Some l \<Rightarrow> rowsNonEmpty l)
              \<and> (case upper of None \<Rightarrow> True | Some u \<Rightarrow> rowsNonEmpty u)))"
| "rowsNonEmpty (Matrix rs st cspec) = list_all (list_all rowsNonEmpty) rs"
| "rowsNonEmpty _ = True"

text \<open>The three delete commands, to speak of sequences of them.\<close>

datatype DeleteCommand = DeleteBackward | DeleteForward | DeleteSelection

fun deleteCommand :: "nat \<Rightarrow> DeleteCommand \<Rightarrow> Command" where
  "deleteCommand fuel DeleteBackward = deleteBackward fuel"
| "deleteCommand fuel DeleteForward = deleteForward"
| "deleteCommand fuel DeleteSelection = deleteSelection"

text \<open>The row of the single symbol x, with the cursor after it.\<close>

definition xState :: EditorState where
  "xState = \<lparr>root = Row [Symbol ''x''], selection = collapsedSelection (cursor [] 1)\<rparr>"

section \<open>Tokenizer totality\<close>

lemma specialToken_not_eof: "specialToken c = Some ty \<Longrightarrow> ty \<noteq> TEof"
  by (simp add: specialToken_def split: if_splits)

lemma readWhitespace_slice:
  "isWhitespace c \<Longrightarrow> readWhitespace start (c # cs) = (t, p, rest) \<Longrightarrow>
     tok_value t @ rest = c # cs \<and> tok_value t \<noteq> [] \<and> p = start + length (tok_value t)
     \<and> tok_position t = int start \<and> tok_type t \<noteq> TEof"
  by (auto simp: readWhitespace_def mkToken_def Let_def)

lemma readNumber_slice:
  "isDigit c \<Longrightarrow> readNumber start (c # cs) = (t, p, rest) \<Longrightarrow>
     tok_value t @ rest = c # cs \<and> tok_value t \<noteq> [] \<and> p = start + length (tok_value t)
     \<and> tok_position t = int start \<and> tok_type t \<noteq> TEof"
  by (auto simp: readNumber_def mkToken_def Let_def isNumberChar_def)

lemma readCommand_slice:
  "readCommand start cs = (t, p, rest) \<Longrightarrow>
     tok_value t @ rest = BS # cs \<and> tok_value t \<noteq> [] \<and> p = start + length (tok_value t)
     \<and> tok_position t = int start \<and> tok_type t \<noteq> TEof"
  by (cases cs) (auto simp: readCommand_def mkToken_def Let_def split: if_splits)

lemma nextToken_slice:
  assumes "nextToken start (c # cs) = (t, p, rest)"
  shows "tok_value t @ rest = c # cs \<and> tok_value t \<noteq> [] \<and> p = start + length (tok_value t)
         \<and> tok_position t = int start \<and> tok_type t \<noteq> TEof"
proof (cases "isWhitespace c")
  case True
  with assms show ?thesis
    using readWhitespace_slice [of c start cs t p rest] by (simp add: nextToken.simps)
next
  case ws: False
  show ?thesis
  proof (cases "c = BS")
    case True
    with ws assms show ?thesis
      using readCommand_slice [of start cs t p rest] by (simp add: nextToken.simps)
  next
    case nb: False
    show ?thesis
    proof (cases "isDigit c")
      case True
      with ws nb assms show ?thesis
        using readNumber_slice [of c start cs t p rest] by (simp add: nextToken.simps)
    next
      case nd: False
      show ?thesis
      proof (cases "specialToken c")
        case None
        with ws nb nd assms show ?thesis
          by (auto simp: nextToken.simps mkToken_def)
      next
        case (Some ty)
        with ws nb nd assms specialToken_not_eof [OF Some] show ?thesis
          by (auto simp: nextToken.simps mkToken_def)
      qed
    qed
  qed
qed


lemma tokenizeLoop_shape:
  "\<exists>toks. tokenizeLoop pos s = toks @ [mkToken TEof [] (pos + length s)]
      \<and> concat (map tok_value toks) = s
      \<and> (\<forall>t\<in>set toks. tok_type t \<noteq> TEof \<and> tok_value t \<noteq> [])
      \<and> (\<forall>i<length toks. tok_position (toks ! i) = int (pos + length (concat (map tok_value (take i toks)))))"
proof (induction pos s rule: tokenizeLoop.induct)
  case (1 position)
  show ?case by simp
next
  case (2 position c cs)
  obtain t p rest where nt: "nextToken position (c # cs) = (t, p, rest)"
    by (cases "nextToken position (c # cs)") auto
  from nextToken_slice [OF nt] have
    sl: "tok_value t @ rest = c # cs" and ne: "tok_value t \<noteq> []"
    and p: "p = position + length (tok_value t)" and tp: "tok_position t = int position"
    and ty: "tok_type t \<noteq> TEof" by auto
  from "2.IH" [OF nt [symmetric] refl] obtain toks where
    t1: "tokenizeLoop p rest = toks @ [mkToken TEof [] (p + length rest)]"
    and t2: "concat (map tok_value toks) = rest"
    and t3: "\<forall>t\<in>set toks. tok_type t \<noteq> TEof \<and> tok_value t \<noteq> []"
    and t4: "\<forall>i<length toks. tok_position (toks ! i) = int (p + length (concat (map tok_value (take i toks))))"
    by blast
  have "length (tok_value t) + length rest = length (c # cs)"
    using sl by (metis length_append)
  then have len: "p + length rest = position + length (c # cs)"
    using p by simp
  have a: "tokenizeLoop position (c # cs) = (t # toks) @ [mkToken TEof [] (position + length (c # cs))]"
    using nt t1 len by simp
  have b: "concat (map tok_value (t # toks)) = c # cs" using sl t2 by simp
  have c: "\<forall>u\<in>set (t # toks). tok_type u \<noteq> TEof \<and> tok_value u \<noteq> []"
    using t3 ne ty by simp
  have d: "\<forall>i<length (t # toks). tok_position ((t # toks) ! i)
      = int (position + length (concat (map tok_value (take i (t # toks)))))"
  proof (intro allI impI)
    fix i assume "i < length (t # toks)"
    then show "tok_position ((t # toks) ! i)
      = int (position + length (concat (map tok_value (take i (t # toks)))))"
      using t4 tp p by (cases i) auto
  qed
  from a b c d show ?case by blast
qed


text \<open>
  C6. \<open>tokenize\<close> is a total function. Its result is a list of tokens followed by one
  end-of-input token at position \<open>length s\<close>; the values of the tokens before it, put
  end to end, are the input; none of them is empty or an end-of-input token; each starts
  where the tokens before it end. So every input character lies in exactly one token.
  A character outside every recognised class becomes a text token of that one
  character.
\<close>

theorem tokenize_total:
  "(\<exists>toks. tokenize s = toks @ [\<lparr>tok_type = TEof, tok_value = [], tok_position = int (length s)\<rparr>]
      \<and> concat (map tok_value toks) = s
      \<and> (\<forall>t\<in>set toks. tok_type t \<noteq> TEof \<and> tok_value t \<noteq> [])
      \<and> (\<forall>i<length toks.
            tok_position (toks ! i) = int (length (concat (map tok_value (take i toks))))))
   \<and> (\<not> isWhitespace c \<and> c \<noteq> BS \<and> \<not> isDigit c \<and> specialToken c = None \<longrightarrow>
        nextToken start (c # cs)
          = (\<lparr>tok_type = TText, tok_value = [c], tok_position = int start\<rparr>, start + 1, cs))"
proof (intro conjI impI)
  show "\<exists>toks. tokenize s = toks @ [\<lparr>tok_type = TEof, tok_value = [], tok_position = int (length s)\<rparr>]
      \<and> concat (map tok_value toks) = s
      \<and> (\<forall>t\<in>set toks. tok_type t \<noteq> TEof \<and> tok_value t \<noteq> [])
      \<and> (\<forall>i<length toks.
            tok_position (toks ! i) = int (length (concat (map tok_value (take i toks)))))"
    using tokenizeLoop_shape [of 0 s] by (simp add: tokenize_def mkToken_def)
next
  assume "\<not> isWhitespace c \<and> c \<noteq> BS \<and> \<not> isDigit c \<and> specialToken c = None"
  then show "nextToken start (c # cs)
      = (\<lparr>tok_type = TText, tok_value = [c], tok_position = int start\<rparr>, start + 1, cs)"
    by (simp add: nextToken.simps mkToken_def)
qed

theorem tokenize_total_witness:
  "tokenize ''a#'' =
     [\<lparr>tok_type = TText, tok_value = ''a'', tok_position = 0\<rparr>,
      \<lparr>tok_type = TText, tok_value = ''#'', tok_position = 1\<rparr>,
      \<lparr>tok_type = TEof, tok_value = [], tok_position = 2\<rparr>]
   \<and> \<not> isWhitespace (CHR ''#'') \<and> CHR ''#'' \<noteq> BS \<and> \<not> isDigit (CHR ''#'')
   \<and> specialToken (CHR ''#'') = None
   \<and> nextToken 1 ''#'' = (\<lparr>tok_type = TText, tok_value = ''#'', tok_position = 1\<rparr>, 2, [])"
  using tokenize_total [of "''a#''" "CHR ''#''" 1 "[]"]
  by (simp add: tokenize_def nextToken.simps readWhitespace_def readNumber_def readCommand_def
     isWhitespace_def isDigit_def isLetter_def isNumberChar_def specialToken_def BS_def mkToken_def
     Let_def)

section \<open>Cursor order\<close>

lemma comparePrefix_append_right: "comparePrefix xs (xs @ zs) = None"
  by (induction xs) auto

lemma comparePrefix_append_left: "comparePrefix (xs @ zs) xs = None"
  by (induction xs) (auto split: list.splits)

text \<open>
  C4. When the path of A is a strict prefix of the path of B, A precedes B exactly when
  A's offset is at most the next index of B, and follows it otherwise; symmetrically
  when B's path is a strict prefix of A's; cursors with equal paths compare by
  offset. The cursor at offset 1 of the root precedes the cursor in [1,0] at offset 1.
\<close>

theorem compareCursors_prefix_rule:
  "(strict_prefix (path a) (path b) \<longrightarrow>
      compareCursors a b = (if offset a \<le> path b ! length (path a) then -1 else 1))
   \<and> (strict_prefix (path b) (path a) \<longrightarrow>
      compareCursors a b = (if offset b \<le> path a ! length (path b) then 1 else -1))
   \<and> (path a = path b \<longrightarrow>
      compareCursors a b = (if offset a < offset b then -1 else if offset b < offset a then 1 else 0))
   \<and> compareCursors \<lparr>path = [], offset = 1\<rparr> \<lparr>path = [1, 0], offset = 1\<rparr> = -1"
proof (intro conjI impI)
  assume "strict_prefix (path a) (path b)"
  then obtain zs where b: "path b = path a @ zs" and "zs \<noteq> []"
    by (auto simp: strict_prefix_def prefix_def)
  then have "length (path a) < length (path b)" by simp
  then show "compareCursors a b = (if offset a \<le> path b ! length (path a) then -1 else 1)"
    by (simp add: compareCursors_def b comparePrefix_append_right Let_def)
next
  assume "strict_prefix (path b) (path a)"
  then obtain zs where a: "path a = path b @ zs" and "zs \<noteq> []"
    by (auto simp: strict_prefix_def prefix_def)
  then have "length (path b) < length (path a)" by simp
  then show "compareCursors a b = (if offset b \<le> path a ! length (path b) then 1 else -1)"
    by (simp add: compareCursors_def a comparePrefix_append_left Let_def)
next
  assume "path a = path b"
  then show "compareCursors a b =
      (if offset a < offset b then -1 else if offset b < offset a then 1 else 0)"
    using comparePrefix_append_right [of "path b" "[]"]
    by (simp add: compareCursors_def)
next
  show "compareCursors \<lparr>path = [], offset = 1\<rparr> \<lparr>path = [1, 0], offset = 1\<rparr> = -1"
    by (simp add: compareCursors_def)
qed

theorem compareCursors_prefix_rule_witness:
  "strict_prefix [2::nat] [2, 0] \<and> strict_prefix [] [0::nat]
   \<and> compareCursors \<lparr>path = [2], offset = 1\<rparr> \<lparr>path = [2, 0], offset = 5\<rparr> = 1
   \<and> compareCursors \<lparr>path = [0], offset = 5\<rparr> \<lparr>path = [], offset = 1\<rparr> = -1
   \<and> compareCursors \<lparr>path = [3], offset = 2\<rparr> \<lparr>path = [3], offset = 2\<rparr> = 0"
  using compareCursors_prefix_rule [of "\<lparr>path = [2], offset = 1\<rparr>" "\<lparr>path = [2, 0], offset = 5\<rparr>"]
        compareCursors_prefix_rule [of "\<lparr>path = [0], offset = 5\<rparr>" "\<lparr>path = [], offset = 1\<rparr>"]
        compareCursors_prefix_rule [of "\<lparr>path = [3], offset = 2\<rparr>" "\<lparr>path = [3], offset = 2\<rparr>"]
  by (simp add: strict_prefix_def)

section \<open>History laws\<close>

text \<open>
  C3. Pushing a state onto any history, with any options, leaves the redo stack empty.
  Hence after push S1, undo, push S2 nothing can be redone: \<open>canRedo\<close> is false and
  \<open>redo\<close> returns the history unchanged, whose present is S2.
\<close>

theorem pushHistory_clears_future:
  "future (pushHistory h s opts) = []
   \<and> \<not> canRedo (pushHistory (undo (pushHistory h0 s1 opts1)) s2 opts2)
   \<and> redo (pushHistory (undo (pushHistory h0 s1 opts1)) s2 opts2)
       = pushHistory (undo (pushHistory h0 s1 opts1)) s2 opts2
   \<and> present (pushHistory (undo (pushHistory h0 s1 opts1)) s2 opts2) = s2"
  by (simp add: pushHistory_def canRedo_def redo_def Let_def)

text \<open>
  C10. On a history with a non-empty past, redo after undo gives the history back;
  on a history with a non-empty future, undo after redo gives it back.
\<close>

theorem undo_redo_inverse:
  "(past h \<noteq> [] \<longrightarrow> redo (undo h) = h) \<and> (future h \<noteq> [] \<longrightarrow> undo (redo h) = h)"
  by (simp add: undo_def redo_def Let_def)


theorem undo_redo_inverse_witness:
  "past \<lparr>past = [createEmptyState], present = createEmptyState, future = [createEmptyState]\<rparr> \<noteq> []
   \<and> future \<lparr>past = [createEmptyState], present = createEmptyState, future = [createEmptyState]\<rparr> \<noteq> []
   \<and> redo (undo \<lparr>past = [createEmptyState], present = createEmptyState, future = [createEmptyState]\<rparr>)
       = \<lparr>past = [createEmptyState], present = createEmptyState, future = [createEmptyState]\<rparr>
   \<and> undo (redo \<lparr>past = [createEmptyState], present = createEmptyState, future = [createEmptyState]\<rparr>)
       = \<lparr>past = [createEmptyState], present = createEmptyState, future = [createEmptyState]\<rparr>"
  using undo_redo_inverse
    [of "\<lparr>past = [createEmptyState], present = createEmptyState, future = [createEmptyState]\<rparr>"]
  by simp

section \<open>End-to-end editing scenario\<close>

text \<open>
  C5 (as the code behaves). From the empty state, typing x, inserting a superscript,
  typing 2, moving right out of the exponent, inserting = and typing y gives the row
  \<open>x^(2) = y\<close> whose exponent is a row; serialized without placeholders this is
  \<open>x^{2}=y\<close>, braces included, because \<open>needsBraces\<close> holds of every row.
\<close>

theorem scenario_serializes_with_braces:
  "\<exists>st. executeCommands createEmptyState
          [insertCharacter ''x'', insertSuperscript, insertCharacter ''2'',
           moveRight fuel False, insertOperator ''='', insertCharacter ''y''] = Inr st
     \<and> root st = Row [Power (Symbol ''x'') (Row [Number ''2'']), Operator ''='', Symbol ''y'']
     \<and> serializeToLatex (root st) \<lparr>prettyPrint = False, includePlaceholders = False\<rparr>
         = ''x^{2}=y''"
  by (simp add: createEmptyState_def executeCommand_def insertCharacter_def insertLeaf_def
     classifyCharacter_def isDigit_def isLetter_def isOperatorChar_def deleteSelectionContent_def
     isCollapsed_def cursorsEqual_def compareCursors_def collapsedSelection_def
     insertNodeAtPosition_def replaceNodeAtPath_ins.simps parentPath_def indexInParent_def
     arraySet_def updateState_def cursor_def insertSuperscript_def findContainingRow_def
     slice_def sliceFrom_def moveRight_def moveCursorRight_def exitNodeRight.simps
     insertOperator_def BS_def updateSelection_def Let_def
     serializeToLatex_def scriptPart_def needsBraces_def serializeOperator_def
     COMMAND_OPERATORS_def OPERATORS_def GREEK_LETTERS_def)

text \<open>The same run does not serialize to \<open>x^2=y\<close>.\<close>

theorem scenario_not_brace_free:
  "\<not> (\<exists>st. executeCommands createEmptyState
            [insertCharacter ''x'', insertSuperscript, insertCharacter ''2'',
             moveRight 0 False, insertOperator ''='', insertCharacter ''y''] = Inr st
        \<and> serializeToLatex (root st) \<lparr>prettyPrint = False, includePlaceholders = False\<rparr>
            = ''x^2=y'')"
  by (simp add: createEmptyState_def executeCommand_def insertCharacter_def insertLeaf_def
     classifyCharacter_def isDigit_def isLetter_def isOperatorChar_def deleteSelectionContent_def
     isCollapsed_def cursorsEqual_def compareCursors_def collapsedSelection_def
     insertNodeAtPosition_def replaceNodeAtPath_ins.simps parentPath_def indexInParent_def
     arraySet_def updateState_def cursor_def insertSuperscript_def findContainingRow_def
     slice_def sliceFrom_def moveRight_def moveCursorRight_def exitNodeRight.simps
     insertOperator_def BS_def updateSelection_def Let_def
     serializeToLatex_def scriptPart_def needsBraces_def serializeOperator_def
     COMMAND_OPERATORS_def OPERATORS_def GREEK_LETTERS_def)

section \<open>Parser: the recursive equations\<close>

lemmas parser_defs =
  parseRowLoop_def parseAtom_def parseNumber_def parseSymbol_def parseCommand_def
  parseScriptLoop_def parseScript_def parseScriptArg_def parseGroup_def
  parseDelimitedGroup_def parseFraction_def parseSqrt_def parseFunction_def
  parseLargeOperator_def parseLeftRight_def parseEnvironment_def parseMatrixLoop_def
  parseMatrix_def

lemma parseRowLoop_0: "parseRowLoop 0 stopTokens cs ts = PTimeout"
  by (simp add: parseRowLoop_def)

lemma parseRowLoop_Suc:
  "parseRowLoop (Suc fuel) stopTokens cs ts =
     (if isEof ts then POk (simplifyRow cs) ts
      else
        (let ts1 = skipWhitespace ts in
         if rowStops stopTokens (peek ts1) then POk (simplifyRow cs) ts1
         else pbind (parseAtom fuel ts1) (\<lambda>atom ts2.
                parseRowLoop fuel stopTokens
                  (case atom of Some a \<Rightarrow> cs @ [a] | None \<Rightarrow> cs) ts2)))"
  unfolding parser_defs
  by (simp add: parseRowLoop_body_def Let_def)

lemma parseAtom_0: "parseAtom 0 ts = PTimeout"
  by (simp add: parseAtom_def)

lemma parseAtom_Suc:
  "parseAtom (Suc fuel) ts =
     (let ts1 = skipWhitespace ts; ty = tok_type (peek ts1) in
      if ty = TNumber then pbind (parseNumber fuel ts1) (\<lambda>n ts2. POk (Some n) ts2)
      else if ty = TText then pbind (parseSymbol fuel ts1) (\<lambda>n ts2. POk (Some n) ts2)
      else if ty = TOperator then pbind (parseOperator ts1) (\<lambda>n ts2. POk (Some n) ts2)
      else if ty = TCommand then pbind (parseCommand fuel ts1) (\<lambda>n ts2. POk (Some n) ts2)
      else if ty = TOpenBrace then pbind (parseGroup fuel ts1) (\<lambda>n ts2. POk (Some n) ts2)
      else if ty = TOpenParen \<or> ty = TOpenBracket \<or> ty = TPipe
      then pbind (parseDelimitedGroup fuel ts1) (\<lambda>n ts2. POk (Some n) ts2)
      else if ty = TSuperscript \<or> ty = TSubscript
      then pbind (parseScript fuel Placeholder ts1) (\<lambda>n ts2. POk (Some n) ts2)
      else POk None ts1)"
  unfolding parser_defs
  by (simp add: parseAtom_body_def Let_def)

lemma parseNumber_0: "parseNumber 0 ts = PTimeout"
  by (simp add: parseNumber_def)

lemma parseNumber_Suc:
  "parseNumber (Suc fuel) ts =
     parseScript fuel (Number (tok_value (peek ts))) (advance ts)"
  unfolding parser_defs
  by (simp add: parseNumber_body_def Let_def)

lemma parseSymbol_0: "parseSymbol 0 ts = PTimeout"
  by (simp add: parseSymbol_def)

lemma parseSymbol_Suc:
  "parseSymbol (Suc fuel) ts =
     parseScript fuel (Symbol (tok_value (peek ts))) (advance ts)"
  unfolding parser_defs
  by (simp add: parseSymbol_body_def Let_def)

lemma parseCommand_0: "parseCommand 0 ts = PTimeout"
  by (simp add: parseCommand_def)

lemma parseCommand_Suc:
  "parseCommand (Suc fuel) ts =
     (let token = peek ts; ts1 = advance ts; cmd = drop 1 (tok_value token) in
      case map_of SPACE_COMMANDS (tok_value token) of
        Some sz \<Rightarrow> POk (Space sz) ts1
      | None \<Rightarrow>
          if cmd \<in> set GREEK_LETTERS then parseScript fuel (Symbol cmd) ts1
          else if cmd \<in> set OPERATORS then POk (Operator cmd) ts1
          else if cmd \<in> set FUNCTIONS then parseFunction fuel cmd ts1
          else if cmd \<in> set LARGE_OPERATORS then parseLargeOperator fuel cmd ts1
          else if cmd = ''frac'' then parseFraction fuel ts1
          else if cmd = ''sqrt'' then parseSqrt fuel ts1
          else if cmd = ''text'' \<or> cmd = ''textit'' \<or> cmd = ''textbf'' \<or> cmd = ''mathrm''
          then parseText ts1
          else if cmd = ''left'' then parseLeftRight fuel ts1
          else if cmd = ''begin'' then parseEnvironment fuel ts1
          else if cmd \<in> set DELIMITER_COMMANDS then POk (Operator cmd) ts1
          else parseScript fuel (Symbol cmd) ts1)"
  unfolding parser_defs
  by (simp add: parseCommand_body_def Let_def)

lemma parseScriptLoop_0: "parseScriptLoop 0 superscr subscr ts = PTimeout"
  by (simp add: parseScriptLoop_def)

lemma parseScriptLoop_Suc:
  "parseScriptLoop (Suc fuel) superscr subscr ts =
     (if isType TSuperscript ts then
        (if superscr \<noteq> None then POk (superscr, subscr) ts
         else pbind (parseScriptArg fuel (advance ts)) (\<lambda>arg ts1.
                parseScriptLoop fuel (Some arg) subscr (skipWhitespace ts1)))
      else if isType TSubscript ts then
        (if subscr \<noteq> None then POk (superscr, subscr) ts
         else pbind (parseScriptArg fuel (advance ts)) (\<lambda>arg ts1.
                parseScriptLoop fuel superscr (Some arg) (skipWhitespace ts1)))
      else POk (superscr, subscr) ts)"
  unfolding parser_defs
  by (simp add: parseScriptLoop_body_def Let_def)

lemma parseScript_0: "parseScript 0 base ts = PTimeout"
  by (simp add: parseScript_def)

lemma parseScript_Suc:
  "parseScript (Suc fuel) base ts =
     pbind (parseScriptLoop fuel None None (skipWhitespace ts)) (\<lambda>scripts ts1.
       POk (attachScripts base (fst scripts) (snd scripts)) ts1)"
  unfolding parser_defs
  by (simp add: parseScript_body_def Let_def)

lemma parseScriptArg_0: "parseScriptArg 0 ts = PTimeout"
  by (simp add: parseScriptArg_def)

lemma parseScriptArg_Suc:
  "parseScriptArg (Suc fuel) ts =
     (let ts1 = skipWhitespace ts; token = peek ts1 in
      if isType TOpenBrace ts1 then parseGroup fuel ts1
      else if tok_type token = TNumber then POk (Number (tok_value token)) (advance ts1)
      else if tok_type token = TText then POk (Symbol (tok_value token)) (advance ts1)
      else if tok_type token = TCommand then parseCommand fuel ts1
      else POk Placeholder ts1)"
  unfolding parser_defs
  by (simp add: parseScriptArg_body_def Let_def)

lemma parseGroup_0: "parseGroup 0 ts = PTimeout"
  by (simp add: parseGroup_def)

lemma parseGroup_Suc:
  "parseGroup (Suc fuel) ts =
     pbind (expect TOpenBrace ts) (\<lambda>_ ts1.
       pbind (parseRowLoop fuel [] [] ts1) (\<lambda>content ts2.
         pbind (expect TCloseBrace ts2) (\<lambda>_ ts3. POk content ts3)))"
  unfolding parser_defs
  by (simp add: parseGroup_body_def Let_def)

lemma parseDelimitedGroup_0: "parseDelimitedGroup 0 ts = PTimeout"
  by (simp add: parseDelimitedGroup_def)

lemma parseDelimitedGroup_Suc:
  "parseDelimitedGroup (Suc fuel) ts =
     (let token = peek ts; ts1 = advance ts in
      if tok_type token = TOpenParen then
        pbind (parseRowLoop fuel ['')''] [] ts1) (\<lambda>content ts2.
          pbind (expect TCloseParen ts2) (\<lambda>_ ts3.
            parseScript fuel (Parens ''('' '')'' content None) ts3))
      else if tok_type token = TOpenBracket then
        pbind (parseRowLoop fuel ['']''] [] ts1) (\<lambda>content ts2.
          pbind (expect TCloseBracket ts2) (\<lambda>_ ts3.
            parseScript fuel (Parens ''['' '']'' content None) ts3))
      else if tok_type token = TPipe then
        pbind (parseRowLoop fuel [''|''] [] ts1) (\<lambda>content ts2.
          pbind (expect TPipe ts2) (\<lambda>_ ts3.
            parseScript fuel (Parens ''|'' ''|'' content None) ts3))
      else PErr (UnexpectedDelimiter (tok_value token)))"
  unfolding parser_defs
  by (simp add: parseDelimitedGroup_body_def Let_def)

lemma parseFraction_0: "parseFraction 0 ts = PTimeout"
  by (simp add: parseFraction_def)

lemma parseFraction_Suc:
  "parseFraction (Suc fuel) ts =
     pbind (parseGroup fuel (skipWhitespace ts)) (\<lambda>numerator ts1.
       pbind (parseGroup fuel (skipWhitespace ts1)) (\<lambda>denominator ts2.
         parseScript fuel (Fraction numerator denominator) ts2))"
  unfolding parser_defs
  by (simp add: parseFraction_body_def Let_def)

lemma parseSqrt_0: "parseSqrt 0 ts = PTimeout"
  by (simp add: parseSqrt_def)

lemma parseSqrt_Suc:
  "parseSqrt (Suc fuel) ts =
     (let ts1 = skipWhitespace ts in
      if isType TOpenBracket ts1 then
        pbind (parseRowLoop fuel ['']''] [] (advance ts1)) (\<lambda>index ts2.
          pbind (expect TCloseBracket ts2) (\<lambda>_ ts3.
            pbind (parseGroup fuel (skipWhitespace ts3)) (\<lambda>radicand ts4.
              parseScript fuel (Sqrt radicand (Some index)) ts4)))
      else
        pbind (parseGroup fuel (skipWhitespace ts1)) (\<lambda>radicand ts4.
          parseScript fuel (Sqrt radicand None) ts4))"
  unfolding parser_defs
  by (simp add: parseSqrt_body_def Let_def)

lemma parseFunction_0: "parseFunction 0 nm ts = PTimeout"
  by (simp add: parseFunction_def)

lemma parseFunction_Suc:
  "parseFunction (Suc fuel) nm ts =
     parseScript fuel (Function nm None None) ts"
  unfolding parser_defs
  by (simp add: parseFunction_body_def Let_def)

lemma parseLargeOperator_0: "parseLargeOperator 0 nm ts = PTimeout"
  by (simp add: parseLargeOperator_def)

lemma parseLargeOperator_Suc:
  "parseLargeOperator (Suc fuel) nm ts =
     (let ts1 = skipWhitespace ts in
      pbind (if isType TSubscript ts1
             then pbind (parseScriptArg fuel (advance ts1)) (\<lambda>l t. POk (Some l) (skipWhitespace t))
             else POk None ts1) (\<lambda>lower1 ts2.
        pbind (if isType TSuperscript ts2
               then pbind (parseScriptArg fuel (advance ts2)) (\<lambda>u t. POk (Some u) (skipWhitespace t))
               else POk None ts2) (\<lambda>upper ts3.
          pbind (if lower1 = None \<and> isType TSubscript ts3
                 then pbind (parseScriptArg fuel (advance ts3)) (\<lambda>l t. POk (Some l) t)
                 else POk lower1 ts3) (\<lambda>lower ts4.
            POk (Function nm None
                   (if lower \<noteq> None \<or> upper \<noteq> None then Some (lower, upper) else None))
                ts4))))"
  unfolding parser_defs
  by (simp add: parseLargeOperator_body_def Let_def)

lemma parseLeftRight_0: "parseLeftRight 0 ts = PTimeout"
  by (simp add: parseLeftRight_def)

lemma parseLeftRight_Suc:
  "parseLeftRight (Suc fuel) ts =
     pbind (parseDelimiter ts) (\<lambda>openDelim ts1.
       pbind (parseRowLoop fuel [BS # ''right''] [] ts1) (\<lambda>content ts2.
         pbind (expectValue TCommand (BS # ''right'') ts2) (\<lambda>_ ts3.
           pbind (parseDelimiter ts3) (\<lambda>closeDelim ts4.
             parseScript fuel (Parens openDelim closeDelim content (Some ''auto'')) ts4))))"
  unfolding parser_defs
  by (simp add: parseLeftRight_body_def Let_def)

lemma parseEnvironment_0: "parseEnvironment 0 ts = PTimeout"
  by (simp add: parseEnvironment_def)

lemma parseEnvironment_Suc:
  "parseEnvironment (Suc fuel) ts =
     pbind (expect TOpenBrace (skipWhitespace ts)) (\<lambda>_ ts1.
       case readUntilCloseBrace ts1 of
         (envName, ts2) \<Rightarrow>
           pbind (expect TCloseBrace ts2) (\<lambda>_ ts3.
             if envName \<in> set MATRIX_ENVIRONMENTS then parseMatrix fuel envName ts3
             else PErr (UnknownEnvironment envName)))"
  unfolding parser_defs
  by (simp add: parseEnvironment_body_def Let_def)

lemma parseMatrixLoop_0: "parseMatrixLoop 0 rs currentRow ts = PTimeout"
  by (simp add: parseMatrixLoop_def)

lemma parseMatrixLoop_Suc:
  "parseMatrixLoop (Suc fuel) rs currentRow ts =
     (if isEof ts then POk (rs, currentRow) ts
      else
        (let ts1 = skipWhitespace ts in
         if isValue TCommand (BS # ''end'') ts1 then POk (rs, currentRow) ts1
         else if isType TNewline ts1 then parseMatrixLoop fuel (rs @ [currentRow]) [] (advance ts1)
         else if isType TAmpersand ts1 then parseMatrixLoop fuel rs currentRow (advance ts1)
         else pbind (parseRowLoop fuel [''&'', [BS, BS], BS # ''end''] [] ts1) (\<lambda>cell ts2.
                parseMatrixLoop fuel rs (currentRow @ [cell]) ts2)))"
  unfolding parser_defs
  by (simp add: parseMatrixLoop_body_def Let_def)

lemma parseMatrix_0: "parseMatrix 0 style ts = PTimeout"
  by (simp add: parseMatrix_def)

lemma parseMatrix_Suc:
  "parseMatrix (Suc fuel) style ts =
     pbind (if style = ''array''
            then pbind (expect TOpenBrace (skipWhitespace ts)) (\<lambda>_ ts1.
                   case readUntilCloseBrace ts1 of
                     (colSpec, ts2) \<Rightarrow>
                       pbind (expect TCloseBrace ts2) (\<lambda>_ ts3. POk (Some colSpec) ts3))
            else POk None ts) (\<lambda>colSpec ts4.
       pbind (parseMatrixLoop fuel [] [] ts4) (\<lambda>acc ts5.
         (let rs = (if length (snd acc) > 0 then fst acc @ [snd acc] else fst acc) in
          pbind (expectValue TCommand (BS # ''end'') ts5) (\<lambda>_ ts6.
            pbind (expect TOpenBrace (skipWhitespace ts6)) (\<lambda>_ ts7.
              case readUntilCloseBrace ts7 of
                (endEnvName, ts8) \<Rightarrow>
                  pbind (expect TCloseBrace ts8) (\<lambda>_ ts9.
                    if endEnvName \<noteq> style then PErr (EnvironmentMismatch style endEnvName)
                    else parseScript fuel (nodeMatrix rs style colSpec) ts9))))))"
  unfolding parser_defs
  by (simp add: parseMatrix_body_def Let_def)

lemmas parser_simps =
  parseRowLoop_0 parseRowLoop_Suc
  parseAtom_0 parseAtom_Suc
  parseNumber_0 parseNumber_Suc
  parseSymbol_0 parseSymbol_Suc
  parseCommand_0 parseCommand_Suc
  parseScriptLoop_0 parseScriptLoop_Suc
  parseScript_0 parseScript_Suc
  parseScriptArg_0 parseScriptArg_Suc
  parseGroup_0 parseGroup_Suc
  parseDelimitedGroup_0 parseDelimitedGroup_Suc
  parseFraction_0 parseFraction_Suc
  parseSqrt_0 parseSqrt_Suc
  parseFunction_0 parseFunction_Suc
  parseLargeOperator_0 parseLargeOperator_Suc
  parseLeftRight_0 parseLeftRight_Suc
  parseEnvironment_0 parseEnvironment_Suc
  parseMatrixLoop_0 parseMatrixLoop_Suc
  parseMatrix_0 parseMatrix_Suc

section \<open>Parser: row simplification\<close>

lemma tokenize_whitespace_only:
  assumes "s \<noteq> []" "list_all isWhitespace s"
  shows "tokenize s = [mkToken TWhitespace s 0, mkToken TEof [] (length s)]"
proof -
  obtain c cs where s: "s = c # cs" using assms(1) by (cases s) auto
  with assms(2) have c: "isWhitespace c" and all: "\<forall>x\<in>set (c # cs). isWhitespace x"
    by (auto simp: list_all_iff)
  from all have tw: "takeWhile isWhitespace (c # cs) = c # cs"
    by (metis takeWhile_eq_all_conv)
  from all have dw: "dropWhile isWhitespace (c # cs) = []"
    by (metis dropWhile_eq_Nil_conv)
  have "nextToken 0 (c # cs) = (mkToken TWhitespace (c # cs) 0, length (c # cs), [])"
    by (simp add: nextToken.simps readWhitespace_def Let_def c tw dw
          del: takeWhile.simps dropWhile.simps)
  then show ?thesis by (simp add: tokenize_def s)
qed

lemma parse_eof_only:
  "parse (Suc fuel) [mkToken TEof [] n] = Parsed Placeholder"
  by (simp add: parse_def parseRow_def parseRowLoop_Suc isEof_def isType_def peek_def
        mkToken_def simplifyRow_def)

lemma parse_whitespace_eof:
  "parse (Suc (Suc fuel)) [mkToken TWhitespace s 0, mkToken TEof [] n] = Parsed Placeholder"
  by (simp add: parse_def parseRow_def parseRowLoop_Suc parseAtom_Suc isEof_def isType_def
        peek_def mkToken_def simplifyRow_def skipWhitespace_def rowStops_def pbind_def Let_def)

lemma parse_x:
  "parseLatex (Suc (Suc (Suc (Suc (Suc fuel))))) ''x'' = Parsed (Symbol ''x'')"
  by (simp add: parseLatex_def tokenize_def nextToken.simps isWhitespace_def isDigit_def
        isLetter_def specialToken_def BS_def mkToken_def
        parse_def parseRow_def parseRowLoop_Suc parseAtom_Suc parseSymbol_Suc parseScript_Suc
        parseScriptLoop_Suc isEof_def isType_def peek_def advance_def attachScripts_def
        simplifyRow_def skipWhitespace_def rowStops_def pbind_def Let_def)

lemma pbind_POk_iff:
  "pbind m f = POk r ts \<longleftrightarrow> (\<exists>x ts1. m = POk x ts1 \<and> f x ts1 = POk r ts)"
  by (cases m) (auto simp: pbind_def)

lemma parseRowLoop_children:
  "parseRowLoop fuel stopTokens cs ts =
     pbind (parseRowChildren fuel stopTokens cs ts) (\<lambda>collected rest.
       POk (case collected of
              [] \<Rightarrow> Placeholder
            | [c] \<Rightarrow> c
            | c # d # others \<Rightarrow> Row collected) rest)"
proof (induction fuel arbitrary: cs ts)
  case 0
  show ?case by (simp add: parseRowLoop_0 pbind_def)
next
  case (Suc fuel)
  have s: "simplifyRow xs = (case xs of [] \<Rightarrow> Placeholder | [c] \<Rightarrow> c | c # d # others \<Rightarrow> Row xs)" for xs
    by (auto simp: simplifyRow_def split: list.splits)
  show ?case
  proof (cases "isEof ts")
    case True
    then show ?thesis by (simp add: parseRowLoop_Suc pbind_def s)
  next
    case False
    show ?thesis
    proof (cases "rowStops stopTokens (peek (skipWhitespace ts))")
      case True
      with False show ?thesis by (simp add: parseRowLoop_Suc pbind_def s Let_def)
    next
      case stop: False
      show ?thesis
      proof (cases "parseAtom fuel (skipWhitespace ts)")
        case (POk atom ts2)
        with False stop show ?thesis
          by (simp add: parseRowLoop_Suc Let_def Suc.IH pbind_def)
      qed (use False stop in \<open>simp_all add: parseRowLoop_Suc Let_def pbind_def\<close>)
    qed
  qed
qed


lemma attachScripts_kind:
  "kind base \<noteq> KRow \<Longrightarrow> kind (attachScripts base superscr subscr) \<noteq> KRow"
  by (cases superscr; cases subscr) (simp_all add: attachScripts_def)

lemma parseScript_kind:
  "parseScript fuel base ts = POk r ts' \<Longrightarrow> kind base \<noteq> KRow \<Longrightarrow> kind r \<noteq> KRow"
  by (cases fuel)
     (auto simp: parseScript_0 parseScript_Suc pbind_POk_iff attachScripts_kind)

lemma parseNumber_kind: "parseNumber fuel ts = POk r ts' \<Longrightarrow> kind r \<noteq> KRow"
  by (cases fuel) (auto simp: parseNumber_0 parseNumber_Suc dest: parseScript_kind)

lemma parseSymbol_kind: "parseSymbol fuel ts = POk r ts' \<Longrightarrow> kind r \<noteq> KRow"
  by (cases fuel) (auto simp: parseSymbol_0 parseSymbol_Suc dest: parseScript_kind)

lemma parseText_kind: "parseText ts = POk r ts' \<Longrightarrow> kind r \<noteq> KRow"
  by (auto simp: parseText_def pbind_POk_iff case_prod_beta)

lemma parseFunction_kind: "parseFunction fuel nm ts = POk r ts' \<Longrightarrow> kind r \<noteq> KRow"
  by (cases fuel) (auto simp: parseFunction_0 parseFunction_Suc dest: parseScript_kind)

lemma parseLargeOperator_kind: "parseLargeOperator fuel nm ts = POk r ts' \<Longrightarrow> kind r \<noteq> KRow"
  by (cases fuel)
     (auto simp: parseLargeOperator_0 parseLargeOperator_Suc pbind_POk_iff Let_def)

lemma parseFraction_kind: "parseFraction fuel ts = POk r ts' \<Longrightarrow> kind r \<noteq> KRow"
  by (cases fuel)
     (auto simp: parseFraction_0 parseFraction_Suc pbind_POk_iff dest: parseScript_kind)

lemma parseSqrt_kind: "parseSqrt fuel ts = POk r ts' \<Longrightarrow> kind r \<noteq> KRow"
  by (cases fuel)
     (auto simp: parseSqrt_0 parseSqrt_Suc pbind_POk_iff Let_def split: if_splits
           dest: parseScript_kind)

lemma parseDelimitedGroup_kind: "parseDelimitedGroup fuel ts = POk r ts' \<Longrightarrow> kind r \<noteq> KRow"
  by (cases fuel)
     (auto simp: parseDelimitedGroup_0 parseDelimitedGroup_Suc pbind_POk_iff Let_def
           split: if_splits dest: parseScript_kind)

lemma parseLeftRight_kind: "parseLeftRight fuel ts = POk r ts' \<Longrightarrow> kind r \<noteq> KRow"
  by (cases fuel)
     (auto simp: parseLeftRight_0 parseLeftRight_Suc pbind_POk_iff dest: parseScript_kind)

lemma parseMatrix_kind: "parseMatrix fuel style ts = POk r ts' \<Longrightarrow> kind r \<noteq> KRow"
  by (cases fuel)
     (auto simp: parseMatrix_0 parseMatrix_Suc pbind_POk_iff Let_def nodeMatrix_def
           case_prod_beta split: if_splits dest: parseScript_kind)

lemma parseEnvironment_kind: "parseEnvironment fuel ts = POk r ts' \<Longrightarrow> kind r \<noteq> KRow"
  by (cases fuel)
     (auto simp: parseEnvironment_0 parseEnvironment_Suc pbind_POk_iff case_prod_beta
           split: if_splits dest: parseMatrix_kind)

lemma parseCommand_kind:
  assumes "parseCommand fuel ts = POk r ts'"
  shows "kind r \<noteq> KRow"
proof (cases fuel)
  case 0
  with assms show ?thesis by (simp add: parseCommand_0)
next
  case (Suc n)
  show ?thesis
  proof (cases "map_of SPACE_COMMANDS (tok_value (peek ts))")
    case (Some sz)
    with assms Suc show ?thesis by (auto simp: parseCommand_Suc Let_def)
  next
    case None
    with assms Suc consider
        (script) b where "parseScript n b (advance ts) = POk r ts'" "kind b \<noteq> KRow"
      | (leaf) v where "r = Operator v"
      | (funcall) nm where "parseFunction n nm (advance ts) = POk r ts'"
      | (largeop) nm where "parseLargeOperator n nm (advance ts) = POk r ts'"
      | (fraction) "parseFraction n (advance ts) = POk r ts'"
      | (root) "parseSqrt n (advance ts) = POk r ts'"
      | (textcmd) "parseText (advance ts) = POk r ts'"
      | (leftright) "parseLeftRight n (advance ts) = POk r ts'"
      | (environment) "parseEnvironment n (advance ts) = POk r ts'"
      by (simp add: parseCommand_Suc Let_def split: if_splits) fastforce+
    then show ?thesis
      by cases
         (auto dest: parseScript_kind parseFunction_kind parseLargeOperator_kind
            parseFraction_kind parseSqrt_kind parseText_kind parseLeftRight_kind
            parseEnvironment_kind)
  qed
qed


lemma simplifyRow_two_children:
  assumes "list_all (\<lambda>c. kind c = KRow \<longrightarrow> 2 \<le> length (children c)) cs"
  shows "kind (simplifyRow cs) = KRow \<longrightarrow> 2 \<le> length (children (simplifyRow cs))"
proof (cases cs)
  case Nil
  then show ?thesis by (simp add: simplifyRow_def)
next
  case (Cons c rest)
  with assms show ?thesis by (cases rest) (simp_all add: simplifyRow_def)
qed

lemma parseAtom_cases:
  assumes "parseAtom (Suc n) ts = POk (Some a) ts'"
  shows "kind a \<noteq> KRow \<or> (\<exists>ts1. parseGroup n ts1 = POk a ts')"
proof -
  from assms consider
      (number) ts1 where "parseNumber n ts1 = POk a ts'"
    | (symbol) ts1 where "parseSymbol n ts1 = POk a ts'"
    | (operator) ts1 where "parseOperator ts1 = POk a ts'"
    | (command) ts1 where "parseCommand n ts1 = POk a ts'"
    | (group) ts1 where "parseGroup n ts1 = POk a ts'"
    | (delimited) ts1 where "parseDelimitedGroup n ts1 = POk a ts'"
    | (script) ts1 where "parseScript n Placeholder ts1 = POk a ts'"
    by (simp add: parseAtom_Suc Let_def pbind_POk_iff split: if_splits)
  then show ?thesis
  proof cases
    case operator
    then show ?thesis by (auto simp: parseOperator_def)
  next
    case group
    then show ?thesis by blast
  qed (auto dest: parseNumber_kind parseSymbol_kind parseCommand_kind
         parseDelimitedGroup_kind parseScript_kind)
qed

lemma parser_rows_two_children:
  "(\<forall>stopTokens cs ts r ts'.
      parseRowLoop fuel stopTokens cs ts = POk r ts' \<longrightarrow>
      list_all (\<lambda>c. kind c = KRow \<longrightarrow> 2 \<le> length (children c)) cs \<longrightarrow>
      (kind r = KRow \<longrightarrow> 2 \<le> length (children r)))
   \<and> (\<forall>ts a ts'. parseAtom fuel ts = POk (Some a) ts' \<longrightarrow>
         (kind a = KRow \<longrightarrow> 2 \<le> length (children a)))
   \<and> (\<forall>ts r ts'. parseGroup fuel ts = POk r ts' \<longrightarrow>
         (kind r = KRow \<longrightarrow> 2 \<le> length (children r)))"
proof (induction fuel)
  case 0
  show ?case by (simp add: parseRowLoop_0 parseAtom_0 parseGroup_0)
next
  case (Suc n)
  have grp: "kind r = KRow \<longrightarrow> 2 \<le> length (children r)"
    if "parseGroup (Suc n) ts = POk r ts'" for ts r ts'
  proof -
    from that obtain ts1 ts2 where "parseRowLoop n [] [] ts1 = POk r ts2"
      by (auto simp: parseGroup_Suc pbind_POk_iff)
    moreover have "list_all (\<lambda>c. kind c = KRow \<longrightarrow> 2 \<le> length (children c)) []"
      by simp
    ultimately show ?thesis using Suc.IH by blast
  qed
  have atm: "kind a = KRow \<longrightarrow> 2 \<le> length (children a)"
    if "parseAtom (Suc n) ts = POk (Some a) ts'" for ts a ts'
    using parseAtom_cases [OF that] Suc.IH by blast
  have row: "kind r = KRow \<longrightarrow> 2 \<le> length (children r)"
    if p: "parseRowLoop (Suc n) stopTokens cs ts = POk r ts'"
      and cs: "list_all (\<lambda>c. kind c = KRow \<longrightarrow> 2 \<le> length (children c)) cs"
    for stopTokens cs ts r ts'
  proof -
    from p consider
        (stop) "r = simplifyRow cs"
      | (atom) a ts1 ts2 where "parseAtom n ts1 = POk a ts2"
          "parseRowLoop n stopTokens (case a of Some x \<Rightarrow> cs @ [x] | None \<Rightarrow> cs) ts2 = POk r ts'"
      by (auto simp: parseRowLoop_Suc Let_def pbind_POk_iff split: if_splits)
    then show ?thesis
    proof cases
      case stop
      with simplifyRow_two_children [OF cs] show ?thesis by simp
    next
      case atom
      have "list_all (\<lambda>c. kind c = KRow \<longrightarrow> 2 \<le> length (children c))
              (case a of Some x \<Rightarrow> cs @ [x] | None \<Rightarrow> cs)"
      proof (cases a)
        case None
        with cs show ?thesis by simp
      next
        case (Some x)
        with atom(1) Suc.IH have "kind x = KRow \<longrightarrow> 2 \<le> length (children x)" by blast
        with cs Some show ?thesis by simp
      qed
      with Suc.IH atom(2) show ?thesis by blast
    qed
  qed
  from grp atm row show ?case by blast
qed

lemma parseRow_two_children:
  "parseRow fuel stopTokens ts = POk r ts' \<Longrightarrow> kind r = KRow \<Longrightarrow> 2 \<le> length (children r)"
proof -
  assume "parseRow fuel stopTokens ts = POk r ts'" and k: "kind r = KRow"
  then have "parseRowLoop fuel stopTokens [] ts = POk r ts'" by (simp add: parseRow_def)
  moreover have "list_all (\<lambda>c. kind c = KRow \<longrightarrow> 2 \<le> length (children c)) []"
    by simp
  ultimately show ?thesis using parser_rows_two_children [of fuel] k by blast
qed

lemma parse_two_children:
  "parse fuel tokens = Parsed r \<Longrightarrow> kind r = KRow \<Longrightarrow> 2 \<le> length (children r)"
  by (auto simp: parse_def split: presult.splits if_splits dest: parseRow_two_children)

lemma parse_whitespace_tokens:
  assumes "list_all (\<lambda>t. tok_type t = TWhitespace) ws" "tok_type e = TEof"
  shows "parse (Suc (Suc fuel)) (ws @ [e]) = Parsed Placeholder"
proof -
  from assms have sk: "skipWhitespace (ws @ [e]) = [e]"
    by (simp add: skipWhitespace_def dropWhile_append list_all_iff)
  from assms(2) have sk1: "skipWhitespace [e] = [e]" by (simp add: skipWhitespace_def)
  from assms(2) have e: "isEof [e]" by (simp add: isEof_def isType_def peek_def)
  from assms(2) have st: "\<not> rowStops [] (peek [e])" by (simp add: rowStops_def peek_def)
  from assms(2) have at: "parseAtom (Suc fuel) [e] = POk None [e]"
    by (simp add: parseAtom_Suc sk1 Let_def peek_def)
  have "parseRowLoop (Suc (Suc fuel)) [] [] (ws @ [e]) = POk Placeholder [e]"
  proof (cases ws)
    case Nil
    with e show ?thesis by (simp add: parseRowLoop_Suc simplifyRow_def)
  next
    case (Cons w rest)
    with assms(1) have "\<not> isEof (ws @ [e])" by (simp add: isEof_def isType_def peek_def)
    then show ?thesis
      by (simp add: parseRowLoop_Suc [of "Suc fuel"] parseRowLoop_Suc [of fuel] sk st at e
            pbind_def Let_def simplifyRow_def)
  qed
  with e show ?thesis by (simp add: parse_def parseRow_def)
qed

lemma parse_1:
  "parseLatex (Suc (Suc (Suc (Suc (Suc fuel))))) ''1'' = Parsed (Number ''1'')"
  by (simp add: parseLatex_def tokenize_def nextToken.simps isWhitespace_def isDigit_def
        isLetter_def isNumberChar_def readNumber_def specialToken_def BS_def mkToken_def
        parse_def parseRow_def parseRowLoop_Suc parseAtom_Suc parseNumber_Suc parseScript_Suc
        parseScriptLoop_Suc isEof_def isType_def peek_def advance_def attachScripts_def
        simplifyRow_def skipWhitespace_def rowStops_def pbind_def Let_def)

text \<open>
  C7. Every call of \<open>parseRow\<close> returns what its loop collected, simplified: a
  placeholder for no child, the child itself for one child, a row for two or more. So
  no call of \<open>parseRow\<close>, and no parse, returns a row of fewer than two children. A
  stream of whitespace tokens before the end of input parses to a placeholder, and with
  fuel for the few calls involved so do the empty string and every string of whitespace
  characters; \<open>x\<close> parses to the symbol itself, whose kind is symbol and not row, and
  \<open>1\<close> to the number itself.
\<close>

theorem parse_row_simplification:
  "parseRow n stopTokens ts =
     pbind (parseRowChildren n stopTokens [] ts) (\<lambda>collected rest.
       POk (case collected of [] \<Rightarrow> Placeholder | [c] \<Rightarrow> c | c # d # others \<Rightarrow> Row collected)
         rest)
   \<and> (parseRow n stopTokens ts = POk r ts' \<longrightarrow> kind r = KRow \<longrightarrow> 2 \<le> length (children r))
   \<and> (parse n tokens = Parsed result \<longrightarrow> kind result = KRow \<longrightarrow>
        2 \<le> length (children result))
   \<and> (2 \<le> n \<longrightarrow> list_all (\<lambda>t. tok_type t = TWhitespace) ws \<longrightarrow> tok_type e = TEof \<longrightarrow>
        parse n (ws @ [e]) = Parsed Placeholder)
   \<and> (5 \<le> fuel \<longrightarrow>
        parseLatex fuel '''' = Parsed Placeholder
        \<and> (list_all isWhitespace s \<longrightarrow> parseLatex fuel s = Parsed Placeholder)
        \<and> parseLatex fuel ''x'' = Parsed (Symbol ''x'')
        \<and> parseLatex fuel ''1'' = Parsed (Number ''1''))
   \<and> kind (Symbol ''x'') = KSymbol
   \<and> simplifyRow [] = Placeholder
   \<and> simplifyRow [c] = c
   \<and> (2 \<le> length cs \<longrightarrow> simplifyRow cs = Row cs)"
proof (intro conjI impI)
  show "parseRow n stopTokens ts =
     pbind (parseRowChildren n stopTokens [] ts) (\<lambda>collected rest.
       POk (case collected of [] \<Rightarrow> Placeholder | [c] \<Rightarrow> c | c # d # others \<Rightarrow> Row collected)
         rest)"
    unfolding parseRow_def by (rule parseRowLoop_children)
next
  assume "parseRow n stopTokens ts = POk r ts'" "kind r = KRow"
  then show "2 \<le> length (children r)" by (rule parseRow_two_children)
next
  assume "parse n tokens = Parsed result" "kind result = KRow"
  then show "2 \<le> length (children result)" by (rule parse_two_children)
next
  assume "2 \<le> n"
  then have "n = Suc (Suc (n - 2))" by simp
  moreover assume "list_all (\<lambda>t. tok_type t = TWhitespace) ws" "tok_type e = TEof"
  ultimately show "parse n (ws @ [e]) = Parsed Placeholder"
    using parse_whitespace_tokens [of ws e "n - 2"] by simp
next
  assume f: "5 \<le> fuel"
  then have "fuel = Suc (Suc (Suc (Suc (Suc (fuel - 5)))))" by simp
  then obtain m where m: "fuel = Suc (Suc (Suc (Suc (Suc m))))" by blast
  show e: "parseLatex fuel '''' = Parsed Placeholder"
    using parse_eof_only [of "Suc (Suc (Suc (Suc m)))" 0]
    by (simp add: m parseLatex_def tokenize_def)
  show "parseLatex fuel ''x'' = Parsed (Symbol ''x'')"
    unfolding m by (rule parse_x)
  show "parseLatex fuel ''1'' = Parsed (Number ''1'')"
    unfolding m by (rule parse_1)
  assume w: "list_all isWhitespace s"
  show "parseLatex fuel s = Parsed Placeholder"
  proof (cases "s = []")
    case True
    with e show ?thesis by simp
  next
    case False
    from tokenize_whitespace_only [OF False w]
         parse_whitespace_eof [of "Suc (Suc (Suc m))" s "length s"]
    show ?thesis by (simp add: m parseLatex_def)
  qed
qed (auto simp: simplifyRow_def)

text \<open>
  A witness: the tokens of \<open>xy\<close> parse to a row of two symbols, the tokens of \<open>1\<close> to the
  number; two whitespace tokens before the end of input, and the string of a space and
  a tab, parse to a placeholder.
\<close>

theorem parse_row_simplification_witness:
  "parseRow 6 [] (tokenize ''xy'') = POk (Row [Symbol ''x'', Symbol ''y'']) [mkToken TEof [] 2]
   \<and> parse 6 (tokenize ''xy'') = Parsed (Row [Symbol ''x'', Symbol ''y''])
   \<and> kind (Row [Symbol ''x'', Symbol ''y'']) = KRow
   \<and> (2::nat) \<le> length (children (Row [Symbol ''x'', Symbol ''y'']))
   \<and> (2::nat) \<le> 6
   \<and> list_all (\<lambda>t. tok_type t = TWhitespace)
        [mkToken TWhitespace '' '' 0, mkToken TWhitespace '' '' 1]
   \<and> tok_type (mkToken TEof [] 2) = TEof
   \<and> parse 6 ([mkToken TWhitespace '' '' 0, mkToken TWhitespace '' '' 1] @ [mkToken TEof [] 2])
       = Parsed Placeholder
   \<and> (5::nat) \<le> 5 \<and> list_all isWhitespace [CHR 0x20, CHR 0x09]
   \<and> parseLatex 5 [CHR 0x20, CHR 0x09] = Parsed Placeholder
   \<and> parseLatex 5 '''' = Parsed Placeholder
   \<and> parseLatex 5 ''x'' = Parsed (Symbol ''x'')
   \<and> parseLatex 5 ''1'' = Parsed (Number ''1'')
   \<and> (2::nat) \<le> length [Symbol ''x'', Symbol ''y'']
   \<and> simplifyRow [Symbol ''x'', Symbol ''y''] = Row [Symbol ''x'', Symbol ''y'']"
  using parse_row_simplification
    [where n = 6 and stopTokens = "[]" and ts = "tokenize ''xy''"
       and r = "Row [Symbol ''x'', Symbol ''y'']" and ts' = "[mkToken TEof [] 2]"
       and tokens = "tokenize ''xy''" and result = "Row [Symbol ''x'', Symbol ''y'']"
       and ws = "[mkToken TWhitespace '' '' 0, mkToken TWhitespace '' '' 1]"
       and e = "mkToken TEof [] 2"
       and fuel = 5 and s = "[CHR 0x20, CHR 0x09]" and cs = "[Symbol ''x'', Symbol ''y'']"]
  by (simp add: tokenize_def nextToken.simps isWhitespace_def isDigit_def isLetter_def
        specialToken_def BS_def mkToken_def
        parse_def parseRow_def parseRowLoop_Suc parseAtom_Suc parseSymbol_Suc parseScript_Suc
        parseScriptLoop_Suc isEof_def isType_def peek_def advance_def attachScripts_def
        simplifyRow_def skipWhitespace_def rowStops_def pbind_def Let_def eval_nat_numeral)

section \<open>Round trip through the serializer\<close>

lemmas tokenizer_eval =
  tokenize_def nextToken.simps readWhitespace_def readNumber_def readCommand_def
  isWhitespace_def isDigit_def isLetter_def isNumberChar_def specialToken_def BS_def
  mkToken_def

lemmas parser_eval =
  parseLatex_def parse_def parseRow_def parseRowLoop_Suc parseAtom_Suc parseNumber_Suc
  parseSymbol_Suc parseCommand_Suc parseScriptLoop_Suc parseScript_Suc parseScriptArg_Suc
  parseGroup_Suc isEof_def isType_def isValue_def peek_def advance_def attachScripts_def
  simplifyRow_def skipWhitespace_def rowStops_def pbind_def expect_def
  SPACE_COMMANDS_def GREEK_LETTERS_def OPERATORS_def FUNCTIONS_def LARGE_OPERATORS_def
  DELIMITER_COMMANDS_def

text \<open>
  C1 at the input made of the command alpha, a space and the letter x: it parses to the
  row of the symbols alpha and x; the row serializes to the command alpha followed at
  once by x, so the Greek letter and the letter after it run together; and that text
  parses to the single symbol alphax, which \<open>nodesEqual\<close> tells apart from the row.
  The serializer puts a space after a command operator to prevent exactly this, and
  none after a Greek letter.
\<close>

theorem roundtrip_breaks_after_greek_letter:
  "parseLatex (Suc (Suc (Suc (Suc (Suc (Suc fuel)))))) (BS # ''alpha x'')
     = Parsed (Row [Symbol ''alpha'', Symbol ''x''])
   \<and> serializeToLatex (Row [Symbol ''alpha'', Symbol ''x'']) defaultOptions = BS # ''alphax''
   \<and> parseLatex (Suc (Suc (Suc (Suc (Suc (Suc fuel)))))) (BS # ''alphax'')
       = Parsed (Symbol ''alphax'')
   \<and> \<not> nodesEqual (Symbol ''alphax'') (Row [Symbol ''alpha'', Symbol ''x''])"
proof (intro conjI)
  show "parseLatex (Suc (Suc (Suc (Suc (Suc (Suc fuel)))))) (BS # ''alpha x'')
     = Parsed (Row [Symbol ''alpha'', Symbol ''x''])"
    by (simp add: tokenizer_eval parser_eval Let_def)
  show "serializeToLatex (Row [Symbol ''alpha'', Symbol ''x'']) defaultOptions = BS # ''alphax''"
    by (simp add: serializeToLatex_def GREEK_LETTERS_def)
  show "parseLatex (Suc (Suc (Suc (Suc (Suc (Suc fuel)))))) (BS # ''alphax'')
       = Parsed (Symbol ''alphax'')"
    by (simp add: tokenizer_eval parser_eval Let_def)
  show "\<not> nodesEqual (Symbol ''alphax'') (Row [Symbol ''alpha'', Symbol ''x''])"
    by simp
qed

section \<open>Backspace at the start of a nested row\<close>

lemma kind_row_children: "kind n = KRow \<Longrightarrow> n = Row (children n)"
  by (cases n) auto

lemma moveLeft_root:
  "moveLeft fuel extending st = Inr (Some st') \<Longrightarrow> root st' = root st"
  by (auto simp: moveLeft_def updateSelection_def split: if_splits sum.splits option.splits)

text \<open>
  C9. The selection is collapsed at offset 0 of a row that is not the root. Then
  \<open>deleteAtPosition\<close> returns null, \<open>deleteBackward\<close> is \<open>moveLeft(false)\<close> on the
  same state, which leaves the row through \<open>exitNodeLeft\<close>, and every state it
  returns has the tree of the input state.
\<close>

theorem deleteBackward_nested_row_start:
  assumes "isCollapsed (selection st)"
      and "offset (focus (selection st)) = 0"
      and "path (focus (selection st)) \<noteq> []"
      and "getNodeAtPath (root st) (path (focus (selection st))) = Some (Row cs)"
  shows "deleteAtPosition (root st) (focus (selection st)) Backward = Inr None
       \<and> deleteBackward fuel st = moveLeft fuel False st
       \<and> moveLeft fuel False st =
           (case exitNodeLeft fuel (root st) (path (focus (selection st))) of
              Inl e \<Rightarrow> Inl e
            | Inr None \<Rightarrow> Inr None
            | Inr (Some newPos) \<Rightarrow> Inr (Some (updateSelection st (collapsedSelection newPos))))
       \<and> (\<forall>st'. deleteBackward fuel st = Inr (Some st') \<longrightarrow> root st' = root st)"
proof -
  have d: "deleteAtPosition (root st) (focus (selection st)) Backward = Inr None"
    using assms by (simp add: deleteAtPosition_def)
  have b: "deleteBackward fuel st = moveLeft fuel False st"
    using assms(1) d by (simp add: deleteBackward_def)
  have m: "moveLeft fuel False st =
           (case exitNodeLeft fuel (root st) (path (focus (selection st))) of
              Inl e \<Rightarrow> Inl e
            | Inr None \<Rightarrow> Inr None
            | Inr (Some newPos) \<Rightarrow> Inr (Some (updateSelection st (collapsedSelection newPos))))"
    using assms by (simp add: moveLeft_def moveCursorLeft_def split: sum.splits option.splits)
  have r: "\<forall>st'. deleteBackward fuel st = Inr (Some st') \<longrightarrow> root st' = root st"
    using b moveLeft_root by auto
  from d b m r show ?thesis by blast
qed

theorem deleteBackward_nested_row_start_witness:
  "isCollapsed (selection fracState) \<and> offset (focus (selection fracState)) = 0
   \<and> path (focus (selection fracState)) \<noteq> []
   \<and> getNodeAtPath (root fracState) (path (focus (selection fracState))) = Some (Row [Placeholder])
   \<and> deleteBackward 0 fracState
       = Inr (Some \<lparr>root = Row [Fraction (Row [Placeholder]) (Row [Placeholder])],
                    selection = collapsedSelection (cursor [] 0)\<rparr>)"
  using deleteBackward_nested_row_start [of fracState "[Placeholder]" 0]
  by (simp add: fracState_def collapsedSelection_def cursor_def isCollapsed_def cursorsEqual_def
       compareCursors_def exitNodeLeft.simps parentPath_def indexInParent_def updateSelection_def)

section \<open>Rows are never left empty by deletion\<close>

lemma rowsNonEmpty_child:
  "rowsNonEmpty n \<Longrightarrow> c \<in> set (getChildNodes n) \<Longrightarrow> rowsNonEmpty c"
  by (cases n) (auto simp: list_all_iff split: option.splits prod.splits)

lemma rowsNonEmpty_at_path:
  "rowsNonEmpty rt \<Longrightarrow> getNodeAtPath rt p = Some n \<Longrightarrow> rowsNonEmpty n"
proof (induction p arbitrary: rt)
  case Nil
  then show ?case by simp
next
  case (Cons i p)
  from Cons.prems(2) have i: "i < length (getChildNodes rt)"
    and g: "getNodeAtPath (getChildNodes rt ! i) p = Some n"
    by (auto simp: Let_def split: if_splits)
  from i have "getChildNodes rt ! i \<in> set (getChildNodes rt)" by simp
  with Cons.prems(1) have "rowsNonEmpty (getChildNodes rt ! i)" by (rule rowsNonEmpty_child)
  then show ?case using g by (rule Cons.IH)
qed

lemma list_all_update:
  "list_all P xs \<Longrightarrow> P v \<Longrightarrow> list_all P (xs[i := v])"
  by (induction xs arbitrary: i) (auto split: nat.splits)

lemma rowsNonEmpty_replaceChild_del:
  "rowsNonEmpty parent \<Longrightarrow> rowsNonEmpty newChild \<Longrightarrow>
   replaceChild_del parent index newChild = Inr r \<Longrightarrow> rowsNonEmpty r"
  by (cases parent)
     (auto simp: arraySet_def list_all_update split: if_splits sum.splits)

lemma rowsNonEmpty_replaceNodeAtPath_del:
  "rowsNonEmpty rt \<Longrightarrow> rowsNonEmpty newNode \<Longrightarrow>
   replaceNodeAtPath_del rt p newNode = Inr r \<Longrightarrow> rowsNonEmpty r"
proof (induction rt p newNode rule: replaceNodeAtPath_del.induct)
  case (1 rt p newNode)
  show ?case
  proof (cases "length p = 0")
    case True
    with "1.prems" show ?thesis by (simp add: replaceNodeAtPath_del.simps)
  next
    case False
    show ?thesis
    proof (cases "getNodeAtPath rt (parentPath p)")
      case None
      with False "1.prems" show ?thesis by (simp add: replaceNodeAtPath_del.simps)
    next
      case (Some parent)
      with False "1.prems"(3) obtain newParent where
        rc: "replaceChild_del parent (nat (indexInParent p)) newNode = Inr newParent"
        and rn: "replaceNodeAtPath_del rt (parentPath p) newParent = Inr r"
        by (auto simp: replaceNodeAtPath_del.simps [of rt p] split: sum.splits)
      have "rowsNonEmpty parent" using "1.prems"(1) Some by (rule rowsNonEmpty_at_path)
      then have "rowsNonEmpty newParent"
        using "1.prems"(2) rc by (rule rowsNonEmpty_replaceChild_del)
      with "1.IH" [OF False refl refl Some rc "1.prems"(1) _ rn] show ?thesis by simp
    qed
  qed
qed

lemma list_all_slice: "list_all P xs \<Longrightarrow> list_all P (slice xs a b)"
  by (auto simp: slice_def list_all_iff dest: in_set_takeD in_set_dropD)

lemma list_all_sliceFrom: "list_all P xs \<Longrightarrow> list_all P (sliceFrom xs a)"
  by (auto simp: sliceFrom_def list_all_iff dest: in_set_dropD)

lemma rowsNonEmpty_spliced_row:
  "list_all rowsNonEmpty cs \<Longrightarrow> list_all rowsNonEmpty mid \<Longrightarrow>
   rowsNonEmpty (Row (orPlaceholder (slice cs a b @ mid @ sliceFrom cs c)))"
  by (simp add: orPlaceholder_def list_all_slice list_all_sliceFrom)

lemma rowsNonEmpty_row_at:
  assumes "rowsNonEmpty rt" "getNodeAtPath rt p = Some row" "kind row = KRow"
  shows "children row \<noteq> [] \<and> list_all rowsNonEmpty (children row)"
proof -
  have "rowsNonEmpty row" using assms(1,2) by (rule rowsNonEmpty_at_path)
  moreover have "row = Row (children row)" using assms(3) by (rule kind_row_children)
  ultimately show ?thesis by (metis rowsNonEmpty.simps(1))
qed

lemma rowsNonEmpty_mainContent:
  "rowsNonEmpty struct \<Longrightarrow> getMainContent struct = Some m \<Longrightarrow> rowsNonEmpty m"
  by (cases struct) auto

lemma rowsNonEmpty_flatten:
  assumes "rowsNonEmpty rt" "rowsNonEmpty struct"
      and "flattenStructureBackward rt rowPath targetIdx struct = Inr (Some (newRoot, c))"
  shows "rowsNonEmpty newRoot"
proof -
  from assms(3) obtain row m where
    row: "getNodeAtPath rt rowPath = Some row" and k: "kind row = KRow"
    and m: "getMainContent struct = Some m"
    and rp: "replaceNodeAtPath_del rt rowPath
        (Row (slice (children row) 0 targetIdx
              @ (if kind m = KRow then children m else [m])
              @ sliceFrom (children row) (targetIdx + 1))) = Inr newRoot"
    by (auto simp: flattenStructureBackward_def Let_def
             split: option.splits if_splits sum.splits)
  have cs: "list_all rowsNonEmpty (children row)"
    using rowsNonEmpty_row_at [OF assms(1) row k] by simp
  have rm: "rowsNonEmpty m" using assms(2) m by (rule rowsNonEmpty_mainContent)
  have mid: "(if kind m = KRow then children m else [m]) \<noteq> []
      \<and> list_all rowsNonEmpty (if kind m = KRow then children m else [m])"
  proof (cases "kind m = KRow")
    case True
    then have "m = Row (children m)" by (rule kind_row_children)
    with rm have "children m \<noteq> [] \<and> list_all rowsNonEmpty (children m)"
      by (metis rowsNonEmpty.simps(1))
    with True show ?thesis by simp
  next
    case False
    with rm show ?thesis by simp
  qed
  have "rowsNonEmpty (Row (slice (children row) 0 targetIdx
              @ (if kind m = KRow then children m else [m])
              @ sliceFrom (children row) (targetIdx + 1)))"
    using cs mid by (simp add: list_all_slice list_all_sliceFrom)
  with assms(1) show ?thesis using rp by (rule rowsNonEmpty_replaceNodeAtPath_del)
qed

lemma rowsNonEmpty_removeChildAt:
  assumes "rowsNonEmpty rt" "list_all rowsNonEmpty cs"
      and "removeChildAt rt pos cs targetIdx newOffset = Inr (Some (newRoot, c))"
  shows "rowsNonEmpty newRoot"
proof -
  from assms(3) have rp: "replaceNodeAtPath_del rt (path pos)
      (Row (orPlaceholder (slice cs 0 targetIdx @ [] @ sliceFrom cs (targetIdx + 1)))) = Inr newRoot"
    by (auto simp: removeChildAt_def Let_def split: sum.splits)
  have "rowsNonEmpty (Row (orPlaceholder (slice cs 0 targetIdx @ [] @ sliceFrom cs (targetIdx + 1))))"
    using assms(2) by (intro rowsNonEmpty_spliced_row) simp_all
  with assms(1) show ?thesis using rp by (rule rowsNonEmpty_replaceNodeAtPath_del)
qed

lemma rowsNonEmpty_deleteContainingStructure:
  assumes "rowsNonEmpty rt"
      and "deleteContainingStructure rt p = Inr (Some (newRoot, c))"
  shows "rowsNonEmpty newRoot"
proof -
  from assms(2) obtain row cs where
    row: "getNodeAtPath rt (parentPath (parentPath p)) = Some row" and k: "kind row = KRow"
    and a: "arraySet (children row) (nat (indexInParent (parentPath p))) Placeholder = Inr cs"
    and rp: "replaceNodeAtPath_del rt (parentPath (parentPath p)) (Row cs) = Inr newRoot"
    by (auto simp: deleteContainingStructure_def Let_def
             split: option.splits if_splits sum.splits)
  have "children row \<noteq> [] \<and> list_all rowsNonEmpty (children row)"
    using rowsNonEmpty_row_at [OF assms(1) row k] .
  with a have "rowsNonEmpty (Row cs)"
    by (auto simp: arraySet_def list_all_update split: if_splits)
  with assms(1) show ?thesis using rp by (rule rowsNonEmpty_replaceNodeAtPath_del)
qed

lemma rowsNonEmpty_deleteAtPosition:
  assumes "rowsNonEmpty rt"
      and "deleteAtPosition rt pos direction = Inr (Some (newRoot, c))"
  shows "rowsNonEmpty newRoot"
proof -
  from assms(2) obtain node where node: "getNodeAtPath rt (path pos) = Some node"
    by (auto simp: deleteAtPosition_def split: option.splits)
  show ?thesis
  proof (cases "kind node = KRow")
    case True
    have cs: "children node \<noteq> [] \<and> list_all rowsNonEmpty (children node)"
      using rowsNonEmpty_row_at [OF assms(1) node True] .
    have el: "\<And>i. i < length (children node) \<Longrightarrow> rowsNonEmpty (children node ! i)"
      using cs by (simp add: list_all_length)
    from assms(2) node True consider
        (flat) i where "\<not> length (children node) \<le> i"
          "flattenStructureBackward rt (path pos) i (children node ! i) = Inr (Some (newRoot, c))"
      | (remove) i off where
          "removeChildAt rt pos (children node) i off = Inr (Some (newRoot, c))"
      | (first) "replaceNodeAtPath_del rt (path pos)
            (Row (orPlaceholder (sliceFrom (children node) 1))) = Inr newRoot"
      by (auto simp: deleteAtPosition_def flattenStructureForward_def Let_def
               split: if_splits sum.splits)
    then show ?thesis
    proof cases
      case flat
      from flat(1) have "i < length (children node)" by simp
      from assms(1) el [OF this] flat(2) show ?thesis by (rule rowsNonEmpty_flatten)
    next
      case remove
      from assms(1) cs [THEN conjunct2] remove show ?thesis by (rule rowsNonEmpty_removeChildAt)
    next
      case first
      have "rowsNonEmpty (Row (orPlaceholder (sliceFrom (children node) 1)))"
        using cs by (simp add: orPlaceholder_def list_all_sliceFrom)
      with assms(1) show ?thesis using first by (rule rowsNonEmpty_replaceNodeAtPath_del)
    qed
  next
    case False
    with assms(2) node have "deleteContainingStructure rt (path pos) = Inr (Some (newRoot, c))"
      by (auto simp: deleteAtPosition_def split: if_splits)
    with assms(1) show ?thesis by (rule rowsNonEmpty_deleteContainingStructure)
  qed
qed

lemma rowsNonEmpty_deleteRange:
  assumes "rowsNonEmpty rt"
      and "deleteRange rt sel = Inr (Some (newRoot, c))"
  shows "rowsNonEmpty newRoot"
proof -
  from assms(2) consider
      (same) "newRoot = rt"
    | (row) p row a b where "getNodeAtPath rt p = Some row" "kind row = KRow"
        "replaceNodeAtPath_del rt p
           (Row (orPlaceholder (slice (children row) 0 a @ [] @ sliceFrom (children row) b)))
         = Inr newRoot"
    | (walk) p q row a b where "walkUpToRow rt q = (p, Some row)" "kind row = KRow"
        "replaceNodeAtPath_del rt p
           (Row (orPlaceholder (slice (children row) 0 a @ [] @ sliceFrom (children row) b)))
         = Inr newRoot"
    by (auto simp: deleteRange_def Let_def
             split: if_splits option.splits sum.splits prod.splits)
  then show ?thesis
  proof cases
    case same
    with assms(1) show ?thesis by simp
  next
    case row
    have "list_all rowsNonEmpty (children row)"
      using rowsNonEmpty_row_at [OF assms(1) row(1,2)] by simp
    then have "rowsNonEmpty (Row (orPlaceholder
        (slice (children row) 0 a @ [] @ sliceFrom (children row) b)))"
      by (intro rowsNonEmpty_spliced_row) simp_all
    with assms(1) show ?thesis using row(3) by (rule rowsNonEmpty_replaceNodeAtPath_del)
  next
    case walk
    have "getNodeAtPath rt p = Some row"
      using walk(1)
    proof (induction rt q rule: walkUpToRow.induct)
      case (1 rt rowPath)
      then show ?case
        by (auto simp: walkUpToRow.simps [of rt rowPath] split: option.splits if_splits)
    qed
    then have "list_all rowsNonEmpty (children row)"
      using rowsNonEmpty_row_at [OF assms(1) _ walk(2)] by simp
    then have "rowsNonEmpty (Row (orPlaceholder
        (slice (children row) 0 a @ [] @ sliceFrom (children row) b)))"
      by (intro rowsNonEmpty_spliced_row) simp_all
    with assms(1) show ?thesis using walk(3) by (rule rowsNonEmpty_replaceNodeAtPath_del)
  qed
qed

lemma rowsNonEmpty_deleteSelection:
  "rowsNonEmpty (root st) \<Longrightarrow> deleteSelection st = Inr (Some st') \<Longrightarrow> rowsNonEmpty (root st')"
  by (auto simp: deleteSelection_def updateState_def
           split: if_splits sum.splits option.splits prod.splits
           dest: rowsNonEmpty_deleteRange)

lemma rowsNonEmpty_deleteForward:
  "rowsNonEmpty (root st) \<Longrightarrow> deleteForward st = Inr (Some st') \<Longrightarrow> rowsNonEmpty (root st')"
  by (auto simp: deleteForward_def updateState_def
           split: if_splits sum.splits option.splits prod.splits
           dest: rowsNonEmpty_deleteSelection rowsNonEmpty_deleteAtPosition)

lemma rowsNonEmpty_deleteBackward:
  "rowsNonEmpty (root st) \<Longrightarrow> deleteBackward fuel st = Inr (Some st') \<Longrightarrow> rowsNonEmpty (root st')"
  by (auto simp: deleteBackward_def updateState_def
           split: if_splits sum.splits option.splits prod.splits
           dest: rowsNonEmpty_deleteSelection rowsNonEmpty_deleteAtPosition moveLeft_root)

lemma rowsNonEmpty_deleteCommand:
  "rowsNonEmpty (root st) \<Longrightarrow> executeCommand st (deleteCommand fuel dc) = Inr st' \<Longrightarrow>
   rowsNonEmpty (root st')"
  by (cases dc)
     (auto simp: executeCommand_def split: sum.splits option.splits
           dest: rowsNonEmpty_deleteBackward rowsNonEmpty_deleteForward rowsNonEmpty_deleteSelection)

text \<open>
  C2. In a state whose rows all have a child (as every normalized state has), after
  any finite sequence of \<open>deleteBackward\<close>, \<open>deleteForward\<close> and \<open>deleteSelection\<close>
  run through \<open>executeCommand\<close>, every row of the resulting tree has a child. A
  command that returns null leaves the state as it is; the sequence has a resulting
  state when no command fails.
\<close>

theorem delete_commands_keep_rows_non_empty:
  assumes "rowsNonEmpty (root st)"
      and "executeCommands st (map (deleteCommand fuel) cmds) = Inr st'"
  shows "rowsNonEmpty (root st')"
  using assms
proof (induction cmds arbitrary: st)
  case Nil
  then show ?case by simp
next
  case (Cons dc cmds)
  from Cons.prems(2) obtain st1 where
    s1: "executeCommand st (deleteCommand fuel dc) = Inr st1"
    and rest: "executeCommands st1 (map (deleteCommand fuel) cmds) = Inr st'"
    by (auto split: sum.splits)
  from Cons.prems(1) s1 have "rowsNonEmpty (root st1)" by (rule rowsNonEmpty_deleteCommand)
  then show ?case using rest by (rule Cons.IH)
qed

theorem delete_commands_keep_rows_non_empty_witness:
  "rowsNonEmpty (root xState)
   \<and> executeCommands xState (map (deleteCommand 0) [DeleteBackward, DeleteForward, DeleteSelection])
       = Inr \<lparr>root = Row [Placeholder], selection = collapsedSelection (cursor [] 0)\<rparr>
   \<and> rowsNonEmpty (root \<lparr>root = Row [Placeholder], selection = collapsedSelection (cursor [] 0)\<rparr>)"
proof -
  have r: "rowsNonEmpty (root xState)" by (simp add: xState_def)
  have e: "executeCommands xState (map (deleteCommand 0) [DeleteBackward, DeleteForward, DeleteSelection])
       = Inr \<lparr>root = Row [Placeholder], selection = collapsedSelection (cursor [] 0)\<rparr>"
    by (simp add: xState_def executeCommand_def deleteBackward_def deleteForward_def
        deleteSelection_def deleteAtPosition_def removeChildAt_def isStructuredNode_def
        replaceNodeAtPath_del.simps slice_def sliceFrom_def orPlaceholder_def
        isCollapsed_def cursorsEqual_def compareCursors_def collapsedSelection_def cursor_def
        updateState_def Let_def)
  from delete_commands_keep_rows_non_empty [OF r e] r e show ?thesis by simp
qed

section \<open>Deleting in a slot that holds a lone placeholder\<close>

lemma getNodeAtPath_append:
  "getNodeAtPath rt (p @ q) =
     (case getNodeAtPath rt p of Some n \<Rightarrow> getNodeAtPath n q | None \<Rightarrow> None)"
  by (induction p arbitrary: rt) (auto simp: Let_def)

lemma comparePrefix_same: "comparePrefix p p = None"
  by (induction p) auto

lemma isCollapsed_collapsedSelection: "isCollapsed (collapsedSelection c)"
  by (simp add: isCollapsed_def collapsedSelection_def cursorsEqual_def compareCursors_def
        comparePrefix_same)

lemma focus_collapsedSelection: "focus (collapsedSelection c) = c"
  by (simp add: collapsedSelection_def)

text \<open>Replacing a node by itself gives the tree back, also below a matrix or a function.\<close>

lemma replaceChild_del_same:
  "i < length (getChildNodes parent) \<Longrightarrow>
   replaceChild_del parent i (getChildNodes parent ! i) = Inr parent"
  by (cases parent)
     (auto simp: arraySet_def less_Suc_eq numeral_2_eq_2 numeral_3_eq_3 split: option.splits)

lemma replaceNodeAtPath_del_same:
  "getNodeAtPath rt p = Some n \<Longrightarrow> replaceNodeAtPath_del rt p n = Inr rt"
proof (induction p arbitrary: n rule: rev_induct)
  case Nil
  then show ?case by (simp add: replaceNodeAtPath_del.simps)
next
  case (snoc i p)
  from snoc.prems obtain parent where parent: "getNodeAtPath rt p = Some parent"
    and i: "i < length (getChildNodes parent)" and n: "getChildNodes parent ! i = n"
    by (auto simp: getNodeAtPath_append Let_def split: option.splits if_splits)
  from i n have "replaceChild_del parent i n = Inr parent"
    using replaceChild_del_same by blast
  with parent snoc.IH [OF parent] show ?case
    by (simp add: replaceNodeAtPath_del.simps [of rt "p @ [i]"] parentPath_def
          indexInParent_def)
qed

lemma deleteAtPosition_lone_placeholder_forward:
  assumes "getNodeAtPath rt p = Some (Row [Placeholder])"
  shows "deleteAtPosition rt (cursor p 0) Forward = Inr (Some (rt, cursor p 0))"
    and "deleteAtPosition rt (cursor p 1) Forward = Inr None"
    and "deleteAtPosition rt (cursor p 0) Backward = Inr None"
    and "deleteAtPosition rt (cursor p 1) Backward = Inr (Some (rt, cursor p 0))"
  using assms replaceNodeAtPath_del_same [OF assms]
  by (simp_all add: deleteAtPosition_def cursor_def removeChildAt_def isStructuredNode_def
        slice_def sliceFrom_def orPlaceholder_def Let_def)

lemma deleteAtPosition_on_lone_placeholder:
  assumes "getNodeAtPath rt p = Some (Row [Placeholder])"
  shows "deleteAtPosition rt (cursor (p @ [0]) j) direction = Inr None"
proof -
  have "getNodeAtPath rt (p @ [0]) = Some Placeholder"
    using assms by (simp add: getNodeAtPath_append)
  moreover have "parentPath (p @ [0]) = p" by (simp add: parentPath_def)
  ultimately show ?thesis
    using assms
    by (simp add: deleteAtPosition_def cursor_def deleteContainingStructure_def
          isStructuredNode_def Let_def)
qed

text \<open>
  C8 (the code does not do this). Let the cursor stand in a row whose only child is a
  placeholder, such as the slot of a structure node, at offset 0 or 1, with a collapsed
  selection. Then no delete command removes anything: \<open>deleteForward\<close> returns the same
  state at offset 0 and null at offset 1; \<open>deleteBackward\<close> is \<open>moveLeft\<close> at offset 0
  and at offset 1 only puts the cursor at offset 0; every state they return has the
  same tree. With the cursor path on the placeholder itself \<open>deleteAtPosition\<close> returns
  null, since the parent of the placeholder is the row and not a structure node. So the
  enclosing structure stays in place.
\<close>

theorem delete_in_lone_placeholder_slot:
  assumes "getNodeAtPath (root st) p = Some (Row [Placeholder])"
      and "selection st = collapsedSelection (cursor p k)"
      and "k \<le> 1"
  shows "deleteForward st = (if k = 0 then Inr (Some st) else Inr None)
       \<and> deleteBackward fuel st
           = (if k = 0 then moveLeft fuel False st
              else Inr (Some (updateSelection st (collapsedSelection (cursor p 0)))))
       \<and> (\<forall>st'. deleteForward st = Inr (Some st') \<longrightarrow> root st' = root st)
       \<and> (\<forall>st'. deleteBackward fuel st = Inr (Some st') \<longrightarrow> root st' = root st)
       \<and> deleteAtPosition (root st) (cursor (p @ [0]) j) direction = Inr None"
proof -
  from assms(3) consider "k = 0" | "k = 1" by linarith
  then have f: "deleteForward st = (if k = 0 then Inr (Some st) else Inr None)"
    using assms(2) deleteAtPosition_lone_placeholder_forward [OF assms(1)]
    by cases
       (simp_all add: deleteForward_def isCollapsed_collapsedSelection
          focus_collapsedSelection updateState_def)
  from assms(3) consider "k = 0" | "k = 1" by linarith
  then have b: "deleteBackward fuel st
           = (if k = 0 then moveLeft fuel False st
              else Inr (Some (updateSelection st (collapsedSelection (cursor p 0)))))"
    using assms(2) deleteAtPosition_lone_placeholder_forward [OF assms(1)]
    by cases
       (simp_all add: deleteBackward_def isCollapsed_collapsedSelection
          focus_collapsedSelection updateState_def updateSelection_def)
  have "root st' = root st" if "deleteForward st = Inr (Some st')" for st'
    using that f by (auto split: if_splits)
  moreover have "root st' = root st" if "deleteBackward fuel st = Inr (Some st')" for st'
    using that b moveLeft_root [of fuel False st st']
    by (auto simp: updateSelection_def split: if_splits)
  ultimately show ?thesis
    using f b deleteAtPosition_on_lone_placeholder [OF assms(1)] by blast
qed

text \<open>
  A witness: \<open>insertFraction\<close> on the empty state gives a fraction with the cursor in its
  numerator row, whose only child is a placeholder. Deleting forward there returns the
  same state and deleting backward moves the cursor in front of the fraction; the tree
  still is the row of the fraction and not the row of a placeholder.
\<close>

theorem delete_in_lone_placeholder_slot_witness:
  "insertFraction createEmptyState = Inr (Some fracState)
   \<and> getNodeAtPath (root fracState) [0, 0] = Some (Row [Placeholder])
   \<and> selection fracState = collapsedSelection (cursor [0, 0] 0)
   \<and> (0::nat) \<le> 1
   \<and> deleteForward fracState = Inr (Some fracState)
   \<and> deleteBackward 0 fracState
       = Inr (Some \<lparr>root = Row [Fraction (Row [Placeholder]) (Row [Placeholder])],
                    selection = collapsedSelection (cursor [] 0)\<rparr>)
   \<and> executeCommand fracState deleteForward = Inr fracState
   \<and> root fracState = Row [Fraction (Row [Placeholder]) (Row [Placeholder])]
   \<and> root fracState \<noteq> Row [Placeholder]
   \<and> deleteAtPosition (root fracState) (cursor [0, 0, 0] 0) Backward = Inr None"
  using delete_in_lone_placeholder_slot [of fracState "[0, 0]" 0 0 0 Backward]
  by (simp add: fracState_def createEmptyState_def insertFraction_def insertEmptyFraction_def
        insertNodeAtPosition_def replaceNodeAtPath_ins.simps
        isCollapsed_def cursorsEqual_def compareCursors_def collapsedSelection_def cursor_def
        updateState_def updateSelection_def moveLeft_def moveCursorLeft_def exitNodeLeft.simps
        parentPath_def indexInParent_def executeCommand_def Let_def)

end
